theory Spec2Isabelle
  imports Complex_Main "HOL-Library.Multiset"
begin

section \<open>Data model\<close>

text \<open>
  The agents exchange Python dictionaries. A dictionary with a fixed set of keys is a
  record here; a key the code reads with \<^verbatim>\<open>.get\<close> may be absent, so its field is an
  option and the default of the \<^verbatim>\<open>.get\<close> call is written out where the field is
  read. A key that is present holds a value of its column's type (SQL NULLs and values of
  another type are outside the model).
\<close>

section \<open>Floating-point arithmetic\<close>

text \<open>
  Python's \<^verbatim>\<open>float\<close> is the IEEE 754 binary64 format. A float is modelled by the
  real number it denotes, and every arithmetic operation returns the exact result rounded to
  the nearest double, ties going to the even significand: \<open>rhe\<close> rounds a real to an
  integer that way, \<open>ulp x\<close> is the spacing of the doubles around \<open>x\<close> (53 bits of
  significand, with the fixed spacing of the subnormal range below \<open>2 powr - 1022\<close>), and
  \<open>fl\<close> rounds a real to a double. A decimal literal of the source denotes its nearest
  double (\<open>fl 0.1\<close> for \<^verbatim>\<open>0.1\<close>); a literal with an integral value is
  written as it is. Comparisons of floats are exact, so they are the comparisons of the
  reals. The inputs are finite doubles; there is no NaN, and the exponent is not bounded
  above: a result beyond the largest double, where Python gives \<^verbatim>\<open>inf\<close>, is here
  a real above every double. The only such result the code can produce from finite inputs is
  the product in the price test of the scorer, which is used in one comparison with a
  double, and that comparison has the same outcome.
\<close>

definition rhe :: "real \<Rightarrow> int" where
  "rhe y = (let f = \<lfloor>y\<rfloor> in
     if y - of_int f < 1/2 then f
     else if y - of_int f > 1/2 then f + 1
     else if even f then f else f + 1)"

definition expo :: "real \<Rightarrow> int" where
  "expo x = max \<lfloor>log 2 \<bar>x\<bar>\<rfloor> (- 1022)"

definition ulp :: "real \<Rightarrow> real" where
  "ulp x = 2 powr of_int (expo x - 52)"

definition fl :: "real \<Rightarrow> real" where
  "fl x = (if x = 0 then 0 else of_int (rhe (x / ulp x)) * ulp x)"

definition fadd :: "real \<Rightarrow> real \<Rightarrow> real" where
  "fadd x y = fl (x + y)"

definition fsub :: "real \<Rightarrow> real \<Rightarrow> real" where
  "fsub x y = fl (x - y)"

definition fmul :: "real \<Rightarrow> real \<Rightarrow> real" where
  "fmul x y = fl (x * y)"

definition fdiv :: "real \<Rightarrow> real \<Rightarrow> real" where
  "fdiv x y = fl (x / y)"

record product =
  product_id :: "string option"
  category :: "string option"
  subcategory :: "string option"
  price :: "real option"
  product_rating :: "real option"
  sentiment_score :: "real option"
  season :: "string option"
  holiday :: "bool option"
  geographical_location :: "string option"
  recommendation_probability :: "real option"
  relevance_score :: "real option"

text \<open>
  \<^verbatim>\<open>customer_data\<close>, as built by the customer agent and read by the product and
  recommendation agents. \<open>price_sensitivity\<close> stands for
  \<^verbatim>\<open>customer_data.get('insights', {}).get('price_sensitivity')\<close>.
\<close>

record customer =
  customer_id :: "string option"
  customer_segment :: "string option"
  browsing_history :: "string list option"
  purchase_history :: "string list option"
  avg_order_value :: "real option"
  location :: "string option"
  customer_season :: "string option"
  holiday_shopping :: "bool option"
  price_sensitivity :: "string option"

definition get_or :: "'a option \<Rightarrow> 'a \<Rightarrow> 'a" where
  "get_or v d = (case v of None \<Rightarrow> d | Some x \<Rightarrow> x)"

text \<open>The empty dictionary: no key is present.\<close>

definition blank_product :: product where
  "blank_product =
     \<lparr>product_id = None, category = None, subcategory = None, price = None,
      product_rating = None, sentiment_score = None, season = None, holiday = None,
      geographical_location = None, recommendation_probability = None,
      relevance_score = None\<rparr>"

definition blank_customer :: customer where
  "blank_customer =
     \<lparr>customer_id = None, customer_segment = None, browsing_history = None,
      purchase_history = None, avg_order_value = None, location = None,
      customer_season = None, holiday_shopping = None, price_sensitivity = None\<rparr>"

section \<open>Relevance scoring (product agent)\<close>

text \<open>The dictionary lookup \<^verbatim>\<open>{'low': 1.5, 'medium': 1.0, 'high': 0.7}.get(ps, 1.0)\<close>.\<close>

definition price_factor :: "string \<Rightarrow> real" where
  "price_factor ps =
     (if ps = ''low'' then fl 1.5
      else if ps = ''medium'' then 1
      else if ps = ''high'' then fl 0.7
      else 1)"

text \<open>
  The body of the loop of \<^verbatim>\<open>_filter_products_for_customer\<close>: the score is built
  by six updates in sequence and clamped by \<^verbatim>\<open>max(0, min(1, relevance_score))\<close>.
\<close>

definition score_product :: "customer \<Rightarrow> product \<Rightarrow> real" where
  "score_product customer_data p =
     (let customer_location = get_or (location customer_data) [];
          cust_season = get_or (customer_season customer_data) [];
          holiday_shop = get_or (holiday_shopping customer_data) False;
          pf = price_factor (get_or (price_sensitivity customer_data) ''medium'');
          s0 = get_or (recommendation_probability p) (fl 0.5);
          s1 = (if geographical_location p = Some customer_location
                then fadd s0 (fl 0.15) else s0);
          s2 = (if season p = Some cust_season then fadd s1 (fl 0.1) else s1);
          s3 = (if holiday p = Some holiday_shop then fadd s2 (fl 0.1) else s2);
          aov = get_or (avg_order_value customer_data) 0;
          product_price = get_or (price p) 0;
          s4 = (if product_price \<le> fmul aov pf then fadd s3 (fl 0.1) else fsub s3 (fl 0.1));
          rating = get_or (product_rating p) 0;
          s5 = (if rating \<ge> 4 then fadd s4 (fl 0.1)
                else if rating \<le> 2 then fsub s4 (fl 0.1) else s4);
          sentiment = get_or (sentiment_score p) 0;
          s6 = (if sentiment \<ge> fl 0.7 then fadd s5 (fl 0.05)
                else if sentiment \<le> fl 0.3 then fsub s5 (fl 0.05) else s5)
      in max 0 (min 1 s6))"

text \<open>
  \<^verbatim>\<open>_filter_products_for_customer\<close>: every product is copied
  (\<^verbatim>\<open>dict(product)\<close>) and the copy gets the key \<^verbatim>\<open>relevance_score\<close>; the
  input list and its dictionaries are not written to, so the function is a map.
\<close>

definition filter_products_for_customer :: "product list \<Rightarrow> customer \<Rightarrow> product list" where
  "filter_products_for_customer products customer_data =
     map (\<lambda>p. p\<lparr>relevance_score := Some (score_product customer_data p)\<rparr>) products"

subsection \<open>The scorer as the specification words it\<close>

text \<open>
  The specification starts at the base probability, applies the adjustments that hold, and
  clamps once at the end. The adjustments that hold are a list, in the specification's
  order, and they are added one after the other in floating-point arithmetic.
\<close>

definition clamp01 :: "real \<Rightarrow> real" where
  "clamp01 x = (if x < 0 then 0 else if x > 1 then 1 else x)"

definition spec_multiplier :: "customer \<Rightarrow> real" where
  "spec_multiplier c =
     (case price_sensitivity c of
        None \<Rightarrow> 1
      | Some ps \<Rightarrow> if ps = ''low'' then fl 1.5 else if ps = ''high'' then fl 0.7 else 1)"

definition spec_location_adj :: "customer \<Rightarrow> product \<Rightarrow> real list" where
  "spec_location_adj c p =
     (if geographical_location p = Some (get_or (location c) []) then [fl 0.15] else [])"

definition spec_season_adj :: "customer \<Rightarrow> product \<Rightarrow> real list" where
  "spec_season_adj c p =
     (if season p = Some (get_or (customer_season c) []) then [fl 0.1] else [])"

definition spec_holiday_adj :: "customer \<Rightarrow> product \<Rightarrow> real list" where
  "spec_holiday_adj c p =
     (if holiday p = Some (get_or (holiday_shopping c) False) then [fl 0.1] else [])"

definition spec_price_adj :: "customer \<Rightarrow> product \<Rightarrow> real list" where
  "spec_price_adj c p =
     (if get_or (price p) 0 \<le> fmul (get_or (avg_order_value c) 0) (spec_multiplier c)
      then [fl 0.1] else [- fl 0.1])"

definition spec_rating_adj :: "product \<Rightarrow> real list" where
  "spec_rating_adj p =
     (if get_or (product_rating p) 0 \<ge> 4 then [fl 0.1]
      else if get_or (product_rating p) 0 \<le> 2 then [- fl 0.1] else [])"

definition spec_sentiment_adj :: "product \<Rightarrow> real list" where
  "spec_sentiment_adj p =
     (if get_or (sentiment_score p) 0 \<ge> fl 0.7 then [fl 0.05]
      else if get_or (sentiment_score p) 0 \<le> fl 0.3 then [- fl 0.05] else [])"

definition spec_adjustments :: "customer \<Rightarrow> product \<Rightarrow> real list" where
  "spec_adjustments c p =
     spec_location_adj c p @ spec_season_adj c p @ spec_holiday_adj c p
     @ spec_price_adj c p @ spec_rating_adj p @ spec_sentiment_adj p"

definition spec_relevance :: "customer \<Rightarrow> product \<Rightarrow> real" where
  "spec_relevance c p =
     clamp01 (foldl fadd (get_or (recommendation_probability p) (fl 0.5))
                (spec_adjustments c p))"

section \<open>Strategy engines (recommendation agent)\<close>

text \<open>
  \<^verbatim>\<open>product_data\<close>: the engines read \<^verbatim>\<open>product_data.get('products', [])\<close>.
\<close>

record product_data =
  products :: "product list option"

definition available_products :: "product_data \<Rightarrow> product list" where
  "available_products pd = get_or (products pd) []"

text \<open>
  A recommendation dictionary. The key \<^verbatim>\<open>subcategory\<close> exists in the dictionaries
  of the content-based engine only, so that field is an option.
\<close>

record recommendation =
  rec_product_id :: "string option"
  rec_category :: string
  rec_subcategory :: "string option"
  rec_price :: real
  score :: real
  reason :: string

text \<open>
  \<^verbatim>\<open>sorted(xs, key=f, reverse=True)\<close>: descending by key and stable, which Python
  keeps under \<^verbatim>\<open>reverse=True\<close>: elements with equal keys stay in their original
  order. That is the stable ascending sort on the negated key.
\<close>

definition sorted_reverse :: "('a \<Rightarrow> real) \<Rightarrow> 'a list \<Rightarrow> 'a list" where
  "sorted_reverse f xs = sort_key (\<lambda>x. - f x) xs"

definition collaborative_rec :: "customer \<Rightarrow> product \<Rightarrow> recommendation" where
  "collaborative_rec customer_data p =
     \<lparr>rec_product_id = product_id p,
      rec_category = get_or (category p) [],
      rec_subcategory = None,
      rec_price = get_or (price p) 0,
      score = get_or (relevance_score p) 0,
      reason = ''Recommended based on preferences of similar ''
               @ get_or (customer_segment customer_data) [] @ '' customers''\<rparr>"

definition collaborative_filtering_strategy ::
  "customer \<Rightarrow> product_data \<Rightarrow> recommendation list" where
  "collaborative_filtering_strategy customer_data pd =
     (if available_products pd = [] then []
      else map (collaborative_rec customer_data)
             (take 10 (sorted_reverse (\<lambda>p. get_or (relevance_score p) 0)
                         (available_products pd))))"

definition content_score :: "customer \<Rightarrow> product \<Rightarrow> real" where
  "content_score customer_data p =
     (let cat = get_or (category p) [];
          s0 = get_or (relevance_score p) 0;
          s1 = (if cat \<in> set (get_or (browsing_history customer_data) [])
                then fadd s0 (fl 0.1) else s0);
          s2 = (if cat \<in> set (get_or (purchase_history customer_data) [])
                then fadd s1 (fl 0.15) else s1)
      in s2)"

definition content_rec :: "customer \<Rightarrow> product \<Rightarrow> recommendation" where
  "content_rec customer_data p =
     \<lparr>rec_product_id = product_id p,
      rec_category = get_or (category p) [],
      rec_subcategory = Some (get_or (subcategory p) []),
      rec_price = get_or (price p) 0,
      score = content_score customer_data p,
      reason = ''Recommended based on your interest in ''
               @ get_or (category p) [] @ '' products''\<rparr>"

definition content_based_strategy ::
  "customer \<Rightarrow> product_data \<Rightarrow> recommendation list" where
  "content_based_strategy customer_data pd =
     (if available_products pd = [] then []
      else take 10 (sorted_reverse score
                      (map (content_rec customer_data) (available_products pd))))"

text \<open>
  The popularity engine formats the rating into its reason
  (\<^verbatim>\<open>f"... with a rating of {rating}"\<close>). How Python prints the value is the
  parameter \<open>fmt\<close>; it is given the field itself, since an absent rating is the integer
  \<^verbatim>\<open>0\<close> of the \<^verbatim>\<open>.get\<close> default and prints differently from a stored
  \<^verbatim>\<open>0.0\<close>.
\<close>

definition popularity_rec :: "(real option \<Rightarrow> string) \<Rightarrow> product \<Rightarrow> recommendation" where
  "popularity_rec fmt p =
     \<lparr>rec_product_id = product_id p,
      rec_category = get_or (category p) [],
      rec_subcategory = None,
      rec_price = get_or (price p) 0,
      score = fdiv (get_or (product_rating p) 0) 5,
      reason = ''Popular '' @ get_or (category p) []
               @ '' product with a rating of '' @ fmt (product_rating p)\<rparr>"

definition popularity_based_strategy ::
  "(real option \<Rightarrow> string) \<Rightarrow> customer \<Rightarrow> product_data \<Rightarrow> recommendation list" where
  "popularity_based_strategy fmt customer_data pd =
     (if available_products pd = [] then []
      else map (popularity_rec fmt)
             (take 10 (sorted_reverse (\<lambda>p. get_or (product_rating p) 0)
                         (available_products pd))))"

text \<open>
  The dictionary \<^verbatim>\<open>all_recs\<close> of the hybrid engine, keyed by product id: an
  association list in insertion order (the order of \<^verbatim>\<open>all_recs.values()\<close>). One
  pass of a merging loop: a product id already among the keys has the weighted score added
  to its entry, in place (the content loop also appends the reason); a new product id is
  appended with a copy of the recommendation carrying the weighted score.
\<close>

type_synonym all_recs = "(string option \<times> recommendation) list"

definition add_rec :: "real \<Rightarrow> bool \<Rightarrow> all_recs \<Rightarrow> recommendation \<Rightarrow> all_recs" where
  "add_rec weight combine_reasons all_recs rec =
     (let pid = rec_product_id rec; s = fmul (score rec) weight
      in if pid \<in> set (map fst all_recs)
         then map (\<lambda>(k, r).
                if k = pid
                then (k, r\<lparr>score := fadd (score r) s,
                            reason := (if combine_reasons
                                       then reason r @ '' and '' @ reason rec
                                       else reason r)\<rparr>)
                else (k, r)) all_recs
         else all_recs @ [(pid, rec\<lparr>score := s\<rparr>)])"

definition merged_recs ::
  "(real option \<Rightarrow> string) \<Rightarrow> customer \<Rightarrow> product_data \<Rightarrow> all_recs" where
  "merged_recs fmt customer_data pd =
     (let collaborative_recs = collaborative_filtering_strategy customer_data pd;
          content_recs = content_based_strategy customer_data pd;
          popularity_recs = popularity_based_strategy fmt customer_data pd;
          all1 = foldl (add_rec (fl 0.4) False) [] collaborative_recs;
          all2 = foldl (add_rec (fl 0.4) True) all1 content_recs;
          all3 = foldl (add_rec (fl 0.2) False) all2 popularity_recs
      in all3)"

text \<open>\<^verbatim>\<open>combined_recs = list(all_recs.values())\<close>.\<close>

definition combined_recs ::
  "(real option \<Rightarrow> string) \<Rightarrow> customer \<Rightarrow> product_data \<Rightarrow> recommendation list" where
  "combined_recs fmt customer_data pd = map snd (merged_recs fmt customer_data pd)"

definition hybrid_strategy ::
  "(real option \<Rightarrow> string) \<Rightarrow> customer \<Rightarrow> product_data \<Rightarrow> recommendation list" where
  "hybrid_strategy fmt customer_data pd =
     take 10 (sorted_reverse score (combined_recs fmt customer_data pd))"

text \<open>
  What the three merging passes do to one product id. \<open>listed recs pid\<close> are the scores a
  sub-engine's output lists under the id, in order; \<open>blend w acc xs\<close> is the score of the
  entry after a loop of weight \<open>w\<close> has met the scores \<open>xs\<close>, where \<open>acc\<close> is the
  score before the loop (\<open>None\<close> when the id is not yet a key). \<open>contribution\<close> is the
  score a sub-engine lists for the id, and 0 when it lists none.
\<close>

definition listed :: "recommendation list \<Rightarrow> string option \<Rightarrow> real list" where
  "listed recs pid = map score (filter (\<lambda>r. rec_product_id r = pid) recs)"

fun blend :: "real \<Rightarrow> real option \<Rightarrow> real list \<Rightarrow> real option" where
  "blend w acc [] = acc"
| "blend w acc (x # xs) =
     blend w (Some (case acc of None \<Rightarrow> fmul x w | Some s \<Rightarrow> fadd s (fmul x w))) xs"

definition contribution :: "recommendation list \<Rightarrow> string option \<Rightarrow> real" where
  "contribution recs pid = (case listed recs pid of [] \<Rightarrow> 0 | x # _ \<Rightarrow> x)"

text \<open>
  Two readings of the dictionary \<^verbatim>\<open>all_recs\<close> used to state the loop invariants:
  every entry is stored under its own product id, and the score stored under a product
  id (\<open>None\<close> when the id is not a key).
\<close>

definition entry_ok :: "all_recs \<Rightarrow> bool" where
  "entry_ok al = (\<forall>k r. map_of al k = Some r \<longrightarrow> rec_product_id r = k)"

definition score_of :: "all_recs \<Rightarrow> string option \<Rightarrow> real option" where
  "score_of al k = map_option score (map_of al k)"

section \<open>Agent memory (base agent and database manager)\<close>

text \<open>
  The values an agent keeps in memory: what \<^verbatim>\<open>json.loads\<close> can return, with the
  Python value \<^verbatim>\<open>None\<close> as \<open>JNull\<close> and a Python string as \<open>JStr\<close>.
\<close>

datatype json =
    JNull
  | JBool bool
  | JInt int
  | JFloat real
  | JStr string
  | JList "json list"
  | JDict "(string \<times> json) list"

text \<open>Python truthiness, as tested by \<^verbatim>\<open>if stored_strategy:\<close>.\<close>

fun truthy :: "json \<Rightarrow> bool" where
  "truthy JNull = False"
| "truthy (JBool b) = b"
| "truthy (JInt i) = (i \<noteq> 0)"
| "truthy (JFloat r) = (r \<noteq> 0)"
| "truthy (JStr s) = (s \<noteq> [])"
| "truthy (JList xs) = (xs \<noteq> [])"
| "truthy (JDict kvs) = (kvs \<noteq> [])"

text \<open>
  A row of the table \<^verbatim>\<open>agent_memory\<close> and a row of the table
  \<^verbatim>\<open>recommendations\<close>. The columns \<^verbatim>\<open>id\<close> and \<^verbatim>\<open>timestamp\<close> are
  never read by the agents and are left out; rows are kept in insertion order, the order
  in which SQLite returns them for the queries used here.
\<close>

record agent_memory_row =
  agent_type :: string
  memory_key :: string
  memory_value :: string

record recommendation_row =
  row_customer_id :: "string option"
  row_product_id :: "string option"
  row_score :: real
  row_reason :: string
  row_feedback :: int

text \<open>
  The state the recommendation agent works on: its own dictionary \<^verbatim>\<open>self.memory\<close>
  and the two database tables it shares with the coordinator.
\<close>

record state =
  memory :: "string \<rightharpoonup> json"
  agent_memory :: "agent_memory_row list"
  recommendations :: "recommendation_row list"

definition agent_name :: string where
  "agent_name = ''recommendation''"

text \<open>
  \<^verbatim>\<open>DatabaseManager.store_agent_memory\<close> is an \<^verbatim>\<open>INSERT\<close>: it appends a row and
  replaces none. \<^verbatim>\<open>get_agent_memory\<close> selects by agent and key, or by agent alone when
  the key is falsy.
\<close>

definition store_agent_memory ::
  "agent_memory_row list \<Rightarrow> string \<Rightarrow> string \<Rightarrow> string \<Rightarrow> agent_memory_row list" where
  "store_agent_memory tbl a k v =
     tbl @ [\<lparr>agent_type = a, memory_key = k, memory_value = v\<rparr>]"

definition get_agent_memory ::
  "agent_memory_row list \<Rightarrow> string \<Rightarrow> string \<Rightarrow> agent_memory_row list" where
  "get_agent_memory tbl a k =
     (if k \<noteq> [] then filter (\<lambda>r. agent_type r = a \<and> memory_key r = k) tbl
      else filter (\<lambda>r. agent_type r = a) tbl)"

text \<open>
  \<^verbatim>\<open>BaseAgent.store_memory\<close>, for a string value (the recommendation agent stores
  strategy names only, so the \<^verbatim>\<open>json.dumps\<close> branch for other values is not taken).
\<close>

definition store_memory :: "state \<Rightarrow> string \<Rightarrow> string \<Rightarrow> state" where
  "store_memory st key v =
     st\<lparr>memory := (memory st)(key \<mapsto> JStr v),
        agent_memory := store_agent_memory (agent_memory st) agent_name key v\<rparr>"

text \<open>
  \<^verbatim>\<open>BaseAgent.recall_memory\<close>. The parameter \<open>loads\<close> is \<^verbatim>\<open>json.loads\<close>, with
  \<open>None\<close> for \<^verbatim>\<open>JSONDecodeError\<close>, in which case the stored text itself is the value.
  On a miss in \<^verbatim>\<open>self.memory\<close> the first row of the query result is used and cached.
  The function returns the Python value \<^verbatim>\<open>None\<close> when nothing is found.
\<close>

definition recall_memory ::
  "(string \<Rightarrow> json option) \<Rightarrow> state \<Rightarrow> string \<Rightarrow> json \<times> state" where
  "recall_memory loads st key =
     (case memory st key of
        Some v \<Rightarrow> (v, st)
      | None \<Rightarrow>
          (case get_agent_memory (agent_memory st) agent_name key of
             [] \<Rightarrow> (JNull, st)
           | row # _ \<Rightarrow>
               (let v = (case loads (memory_value row) of
                           Some j \<Rightarrow> j
                         | None \<Rightarrow> JStr (memory_value row))
                in (v, st\<lparr>memory := (memory st)(key \<mapsto> v)\<rparr>))))"

section \<open>Strategy selection and feedback (recommendation agent)\<close>

text \<open>
  The keys of \<^verbatim>\<open>self.strategies\<close>, in insertion order
  (\<^verbatim>\<open>list(self.strategies.keys())\<close>).
\<close>

definition strategies :: "string list" where
  "strategies = [''collaborative_filtering'', ''content_based'', ''popularity_based'', ''hybrid'']"

text \<open>
  \<^verbatim>\<open>f"strategy_preference_{customer_id}"\<close>; a customer dictionary without the key
  \<^verbatim>\<open>customer_id\<close> formats \<^verbatim>\<open>None\<close>.
\<close>

definition strategy_key :: "string \<Rightarrow> string" where
  "strategy_key customer_id_text = ''strategy_preference_'' @ customer_id_text"

definition select_recommendation_strategy ::
  "(string \<Rightarrow> json option) \<Rightarrow> state \<Rightarrow> customer \<Rightarrow> json \<times> state" where
  "select_recommendation_strategy loads st customer_data =
     (let segment = get_or (customer_segment customer_data) [];
          key = strategy_key (get_or (customer_id customer_data) ''None'');
          (stored_strategy, st1) = recall_memory loads st key
      in if truthy stored_strategy then (stored_strategy, st1)
         else
           (let strategy =
                  (if segment = ''New Visitor'' then ''popularity_based''
                   else if segment = ''Frequent Buyer'' then ''collaborative_filtering''
                   else if length (get_or (browsing_history customer_data) [])
                           > length (get_or (purchase_history customer_data) [])
                        then ''content_based''
                   else ''hybrid'')
            in (JStr strategy, store_memory st1 key strategy)))"

text \<open>\<^verbatim>\<open>list.index\<close>, called only on a member of the list.\<close>

fun index_of :: "'a list \<Rightarrow> 'a \<Rightarrow> nat" where
  "index_of [] x = 0"
| "index_of (y # ys) x = (if y = x then 0 else Suc (index_of ys x))"

text \<open>The dictionaries \<^verbatim>\<open>process\<close> and \<^verbatim>\<open>handle_feedback\<close> return.\<close>

datatype result =
    Error string
  | Adjusted_strategy json string
  | Maintained_strategy json
  | Feedback_recorded

definition learn_from_feedback ::
  "(string \<Rightarrow> json option) \<Rightarrow> state \<Rightarrow> string \<Rightarrow> string \<Rightarrow> int \<Rightarrow> result \<times> state" where
  "learn_from_feedback loads st customer_id_text product_id_text feedback =
     (let key = strategy_key customer_id_text;
          (current_strategy, st1) = recall_memory loads st key
      in if feedback < 0 \<and> truthy current_strategy
         then
           (let current_index =
                  (case current_strategy of
                     JStr s \<Rightarrow> if s \<in> set strategies then index_of strategies s else 0
                   | _ \<Rightarrow> 0);
                next_index = (current_index + 1) mod length strategies;
                next_strategy = strategies ! next_index
            in (Adjusted_strategy current_strategy next_strategy,
                store_memory st1 key next_strategy))
         else (Maintained_strategy current_strategy, st1))"

text \<open>
  The request dictionary of the feedback entry points: each key may be absent
  (\<^verbatim>\<open>.get\<close> gives \<^verbatim>\<open>None\<close>). \<^verbatim>\<open>all([customer_id, product_id, feedback])\<close>
  tests truthiness: an absent key, the empty string and the number 0 are all falsy.
\<close>

record feedback_data =
  fb_customer_id :: "string option"
  fb_product_id :: "string option"
  fb_feedback :: "int option"

definition all_present :: "feedback_data \<Rightarrow> bool" where
  "all_present d =
     ((case fb_customer_id d of None \<Rightarrow> False | Some s \<Rightarrow> s \<noteq> [])
      \<and> (case fb_product_id d of None \<Rightarrow> False | Some s \<Rightarrow> s \<noteq> [])
      \<and> (case fb_feedback d of None \<Rightarrow> False | Some i \<Rightarrow> i \<noteq> 0))"

text \<open>
  The branch \<^verbatim>\<open>action == 'learn_from_feedback'\<close> of
  \<^verbatim>\<open>RecommendationAgent.process\<close>.
\<close>

definition process_learn_from_feedback ::
  "(string \<Rightarrow> json option) \<Rightarrow> state \<Rightarrow> feedback_data \<Rightarrow> result \<times> state" where
  "process_learn_from_feedback loads st d =
     (if \<not> all_present d then (Error ''Missing required feedback data'', st)
      else learn_from_feedback loads st
             (get_or (fb_customer_id d) []) (get_or (fb_product_id d) [])
             (get_or (fb_feedback d) 0))"

text \<open>
  \<^verbatim>\<open>CoordinatorAgent.handle_feedback\<close>: after the same validation, the
  \<^verbatim>\<open>UPDATE\<close> sets the feedback of every recommendation row of that customer and
  product, the recommendation agent is told, and its answer is dropped.
\<close>

definition update_feedback ::
  "recommendation_row list \<Rightarrow> int \<Rightarrow> string \<Rightarrow> string \<Rightarrow> recommendation_row list" where
  "update_feedback tbl feedback cid pid =
     map (\<lambda>r. if row_customer_id r = Some cid \<and> row_product_id r = Some pid
               then r\<lparr>row_feedback := feedback\<rparr> else r) tbl"

definition handle_feedback ::
  "(string \<Rightarrow> json option) \<Rightarrow> state \<Rightarrow> feedback_data \<Rightarrow> result \<times> state" where
  "handle_feedback loads st d =
     (if \<not> all_present d then (Error ''Missing required feedback data'', st)
      else
        (let cid = get_or (fb_customer_id d) [];
             pid = get_or (fb_product_id d) [];
             feedback = get_or (fb_feedback d) 0;
             st1 = st\<lparr>recommendations := update_feedback (recommendations st) feedback cid pid\<rparr>;
             (_, st2) = process_learn_from_feedback loads st1 d
         in (Feedback_recorded, st2)))"

text \<open>
  The state after \<^verbatim>\<open>BaseAgent.__init__\<close> (\<^verbatim>\<open>self.memory = {}\<close>) on a database
  whose tables are empty.
\<close>

definition init_state :: state where
  "init_state = \<lparr>memory = Map.empty, agent_memory = [], recommendations = []\<rparr>"

text \<open>
  A new agent object on the same database, as after a restart of the process:
  \<^verbatim>\<open>BaseAgent.__init__\<close> sets \<^verbatim>\<open>self.memory = {}\<close> and the tables stay.
\<close>

definition restart :: "state \<Rightarrow> state" where
  "restart st = st\<lparr>memory := Map.empty\<rparr>"

subsection \<open>Selection rule and rotation as the specification words them\<close>

definition spec_default_strategy :: "customer \<Rightarrow> string" where
  "spec_default_strategy c =
     (if customer_segment c = Some ''New Visitor'' then ''popularity_based''
      else if customer_segment c = Some ''Frequent Buyer'' then ''collaborative_filtering''
      else if length (get_or (browsing_history c) []) > length (get_or (purchase_history c) [])
           then ''content_based''
      else ''hybrid'')"

definition spec_next_strategy :: "string \<Rightarrow> string" where
  "spec_next_strategy s =
     (if s = ''collaborative_filtering'' then ''content_based''
      else if s = ''content_based'' then ''popularity_based''
      else if s = ''popularity_based'' then ''hybrid''
      else ''collaborative_filtering'')"

section \<open>Properties of the floating-point rounding\<close>

subsection \<open>Rounding to an integer\<close>

lemma rhe_int: "rhe (of_int n) = n"
  by (simp add: rhe_def)

lemma rhe_bounds: "of_int (rhe y) \<le> y + 1/2 \<and> y - 1/2 \<le> of_int (rhe y)"
  unfolding rhe_def Let_def by (auto; linarith)

lemma rhe_mono:
  assumes "x \<le> y"
  shows "rhe x \<le> rhe y"
proof (cases "\<lfloor>x\<rfloor> = \<lfloor>y\<rfloor>")
  case True
  with assms show ?thesis
    unfolding rhe_def Let_def by (auto; linarith)
next
  case False
  with assms have "\<lfloor>x\<rfloor> < \<lfloor>y\<rfloor>"
    by (simp add: floor_mono order.strict_iff_order)
  moreover have "rhe x \<le> \<lfloor>x\<rfloor> + 1" "\<lfloor>y\<rfloor> \<le> rhe y"
    unfolding rhe_def Let_def by auto
  ultimately show ?thesis by linarith
qed

lemma rhe_neg: "rhe (- x) = - rhe x"
proof (cases "x = of_int \<lfloor>x\<rfloor>")
  case True
  then obtain n where "x = of_int n" ..
  then have "- x = of_int (- n)" by simp
  then have "rhe (- x) = - n" by (simp only: rhe_int)
  with \<open>x = of_int n\<close> show ?thesis by (simp add: rhe_int)
next
  case False
  then have lt: "of_int \<lfloor>x\<rfloor> < x" using of_int_floor_le [of x] by linarith
  have ub: "x < of_int \<lfloor>x\<rfloor> + 1" by linarith
  have "of_int (- \<lfloor>x\<rfloor> - 1) \<le> - x"
    using floor_correct [of x]
    by (simp only: of_int_diff of_int_minus of_int_add of_int_1) linarith
  moreover have "- x < of_int (- \<lfloor>x\<rfloor> - 1) + 1"
    using lt by (simp only: of_int_diff of_int_minus of_int_add of_int_1)
  ultimately have f: "\<lfloor>- x\<rfloor> = - \<lfloor>x\<rfloor> - 1"
    by (rule floor_unique)
  show ?thesis
    unfolding rhe_def Let_def f using lt by (auto; linarith)
qed


subsection \<open>Exponent and spacing\<close>

lemma expo_ge: "- 1022 \<le> expo x"
  by (simp add: expo_def)

lemma expo_neg: "expo (- x) = expo x"
  by (simp add: expo_def)

lemma expo_upper:
  assumes "x \<noteq> 0"
  shows "\<bar>x\<bar> < 2 powr of_int (expo x + 1)"
proof -
  from assms have "\<bar>x\<bar> < 2 powr of_int (\<lfloor>log 2 \<bar>x\<bar>\<rfloor> + 1)"
    using floor_log_eq_powr_iff [of "\<bar>x\<bar>" 2 "\<lfloor>log 2 \<bar>x\<bar>\<rfloor>"] by simp
  also have "\<dots> \<le> 2 powr of_int (expo x + 1)"
    by (intro powr_mono) (simp_all add: expo_def)
  finally show ?thesis .
qed

lemma expo_lower:
  assumes "x \<noteq> 0" "- 1022 < expo x"
  shows "2 powr of_int (expo x) \<le> \<bar>x\<bar>"
proof -
  from assms(2) have "expo x = \<lfloor>log 2 \<bar>x\<bar>\<rfloor>"
    by (simp add: expo_def max_def split: if_splits)
  with assms(1) show ?thesis
    using floor_log_eq_powr_iff [of "\<bar>x\<bar>" 2 "\<lfloor>log 2 \<bar>x\<bar>\<rfloor>"] by simp
qed

lemma expo_eqI:
  assumes "2 powr of_int e \<le> \<bar>x\<bar>" "\<bar>x\<bar> < 2 powr of_int (e + 1)" "- 1022 \<le> e"
  shows "expo x = e"
proof -
  have "0 < (2::real) powr of_int e" by simp
  with assms(1) have "0 < \<bar>x\<bar>" by linarith
  with assms(1,2) have "\<lfloor>log 2 \<bar>x\<bar>\<rfloor> = e"
    using floor_log_eq_powr_iff [of "\<bar>x\<bar>" 2 e] by simp
  with assms(3) show ?thesis by (simp add: expo_def)
qed

lemma expo_subnormal:
  assumes "x \<noteq> 0" "\<bar>x\<bar> < 2 powr of_int (- 1022)"
  shows "expo x = - 1022"
proof (rule ccontr)
  assume "expo x \<noteq> - 1022"
  with expo_ge [of x] have gt: "- 1022 < expo x" by linarith
  with assms(1) have "2 powr of_int (expo x) \<le> \<bar>x\<bar>" by (rule expo_lower)
  moreover have "2 powr of_int (- 1022) \<le> (2::real) powr of_int (expo x)"
    using gt by (intro powr_mono) simp_all
  ultimately show False using assms(2) by linarith
qed

lemma expo_mono:
  assumes "x \<noteq> 0" "\<bar>x\<bar> \<le> \<bar>y\<bar>"
  shows "expo x \<le> expo y"
proof -
  from assms have "log 2 \<bar>x\<bar> \<le> log 2 \<bar>y\<bar>" by simp
  then have "\<lfloor>log 2 \<bar>x\<bar>\<rfloor> \<le> \<lfloor>log 2 \<bar>y\<bar>\<rfloor>" by (rule floor_mono)
  then show ?thesis by (simp add: expo_def)
qed

lemma ulp_pos: "0 < ulp x"
  by (simp add: ulp_def)

lemma ulp_neg: "ulp (- x) = ulp x"
  by (simp add: ulp_def expo_neg)

lemma fl_neg: "fl (- x) = - fl x"
  by (simp add: fl_def ulp_neg rhe_neg)

lemma pow_split: "(2::real) powr of_int (a + b) = 2 powr of_int a * 2 powr of_int b"
  by (simp add: powr_add)

lemma quot_upper:
  assumes "0 < x"
  shows "x / ulp x < 2 ^ 53"
proof -
  from assms have "x < 2 powr of_int (expo x + 1)"
    using expo_upper [of x] by simp
  also have "\<dots> = 2 powr of_int ((expo x - 52) + 53)"
    by (simp add: algebra_simps)
  also have "\<dots> = 2 powr of_int (expo x - 52) * 2 powr of_int 53"
    by (rule pow_split)
  also have "\<dots> = ulp x * 2 ^ 53"
    by (simp add: ulp_def powr_realpow [symmetric])
  finally show ?thesis using ulp_pos [of x] by (simp add: field_simps)
qed

lemma quot_lower:
  assumes "0 < x" "- 1022 < expo x"
  shows "2 ^ 52 \<le> x / ulp x"
proof -
  have "ulp x * 2 ^ 52 = 2 powr of_int (expo x - 52) * 2 powr of_int 52"
    by (simp add: ulp_def powr_realpow [symmetric])
  also have "\<dots> = 2 powr of_int ((expo x - 52) + 52)"
    by (rule pow_split [symmetric])
  also have "\<dots> = 2 powr of_int (expo x)"
    by (simp add: algebra_simps)
  also from assms have "\<dots> \<le> x"
    using expo_lower [of x] by simp
  finally show ?thesis using ulp_pos [of x] by (simp add: field_simps)
qed

lemma rhe_quot_upper:
  assumes "0 < x"
  shows "rhe (x / ulp x) \<le> 2 ^ 53"
proof -
  have "rhe (x / ulp x) \<le> rhe (of_int (2 ^ 53))"
    using quot_upper [OF assms] by (intro rhe_mono) simp
  then show ?thesis by (simp only: rhe_int)
qed

lemma rhe_quot_lower:
  assumes "0 < x" "- 1022 < expo x"
  shows "2 ^ 52 \<le> rhe (x / ulp x)"
proof -
  have "rhe (of_int (2 ^ 52)) \<le> rhe (x / ulp x)"
    using quot_lower [OF assms] by (intro rhe_mono) simp
  then show ?thesis by (simp only: rhe_int)
qed

lemma rhe_nonneg: "0 \<le> y \<Longrightarrow> 0 \<le> rhe y"
  using rhe_mono [of 0 y] rhe_int [of 0] by simp

subsection \<open>Rounding to a double is monotone and idempotent\<close>

lemma fl_nonneg: "0 \<le> x \<Longrightarrow> 0 \<le> fl x"
  using ulp_pos [of x] by (simp add: fl_def rhe_nonneg)

lemma fl_pos_form:
  "0 < x \<Longrightarrow> fl x = of_int (rhe (x / ulp x)) * ulp x"
  by (simp add: fl_def)

lemma ulp_times_53: "ulp x * 2 ^ 53 = 2 powr of_int (expo x + 1)"
proof -
  have "ulp x * 2 ^ 53 = 2 powr of_int (expo x - 52) * 2 powr of_int 53"
    by (simp add: ulp_def powr_realpow [symmetric])
  also have "\<dots> = 2 powr of_int ((expo x - 52) + 53)"
    by (rule pow_split [symmetric])
  also have "\<dots> = 2 powr of_int (expo x + 1)"
    by (simp add: algebra_simps)
  finally show ?thesis .
qed

lemma ulp_times_52: "ulp x * 2 ^ 52 = 2 powr of_int (expo x)"
proof -
  have "ulp x * 2 ^ 52 = 2 powr of_int (expo x - 52) * 2 powr of_int 52"
    by (simp add: ulp_def powr_realpow [symmetric])
  also have "\<dots> = 2 powr of_int ((expo x - 52) + 52)"
    by (rule pow_split [symmetric])
  also have "\<dots> = 2 powr of_int (expo x)"
    by (simp add: algebra_simps)
  finally show ?thesis .
qed

lemma fl_upper:
  assumes "0 < x"
  shows "fl x \<le> 2 powr of_int (expo x + 1)"
proof -
  have "of_int (rhe (x / ulp x)) \<le> (2 ^ 53 :: real)"
    using rhe_quot_upper [OF assms] by (metis of_int_le_iff of_int_numeral of_int_power)
  then have "of_int (rhe (x / ulp x)) * ulp x \<le> 2 ^ 53 * ulp x"
    using ulp_pos [of x] by (intro mult_right_mono) simp_all
  also have "\<dots> = ulp x * 2 ^ 53" by (rule mult.commute)
  also have "\<dots> = 2 powr of_int (expo x + 1)" by (rule ulp_times_53)
  finally show ?thesis using assms by (simp only: fl_pos_form)
qed

lemma fl_lower:
  assumes "0 < x" "- 1022 < expo x"
  shows "2 powr of_int (expo x) \<le> fl x"
proof -
  have "(2 ^ 52 :: real) \<le> of_int (rhe (x / ulp x))"
    using rhe_quot_lower [OF assms] by (metis of_int_le_iff of_int_numeral of_int_power)
  then have "2 ^ 52 * ulp x \<le> of_int (rhe (x / ulp x)) * ulp x"
    using ulp_pos [of x] by (intro mult_right_mono) simp_all
  moreover have "2 ^ 52 * ulp x = 2 powr of_int (expo x)"
    using ulp_times_52 [of x] by (simp only: mult.commute)
  ultimately show ?thesis using assms by (simp only: fl_pos_form)
qed

lemma fl_mono_pos:
  assumes "0 < x" "x \<le> y"
  shows "fl x \<le> fl y"
proof -
  from assms have y: "0 < y" by simp
  from assms have e: "expo x \<le> expo y" by (intro expo_mono) simp_all
  show ?thesis
  proof (cases "expo x = expo y")
    case True
    then have u: "ulp x = ulp y" by (simp add: ulp_def)
    have "x / ulp y \<le> y / ulp y"
      using assms ulp_pos [of y] by (simp add: divide_right_mono)
    then have "rhe (x / ulp y) \<le> rhe (y / ulp y)" by (rule rhe_mono)
    then have "of_int (rhe (x / ulp y)) * ulp y \<le> of_int (rhe (y / ulp y)) * ulp y"
      using ulp_pos [of y] by (simp add: mult_right_mono)
    with assms y u show ?thesis by (simp add: fl_pos_form)
  next
    case False
    with e have lt: "expo x < expo y" by simp
    with expo_ge [of x] have n: "- 1022 < expo y" by linarith
    have "fl x \<le> 2 powr of_int (expo x + 1)" using assms(1) by (rule fl_upper)
    also have "\<dots> \<le> 2 powr of_int (expo y)"
      using lt by (intro powr_mono) simp_all
    also have "\<dots> \<le> fl y" using y n by (rule fl_lower)
    finally show ?thesis .
  qed
qed

lemma fl_0: "fl 0 = 0"
  by (simp add: fl_def)

lemma fl_mono:
  assumes "x \<le> y"
  shows "fl x \<le> fl y"
proof -
  consider "0 < x" | "x \<le> 0" "0 \<le> y" | "y < 0" by linarith
  then show ?thesis
  proof cases
    case 1
    with assms show ?thesis by (intro fl_mono_pos)
  next
    case 2
    then have "0 \<le> fl y" "0 \<le> fl (- x)" by (simp_all add: fl_nonneg)
    then show ?thesis by (simp add: fl_neg)
  next
    case 3
    with assms have "fl (- y) \<le> fl (- x)" by (intro fl_mono_pos) simp_all
    then show ?thesis by (simp add: fl_neg)
  qed
qed

lemma fl_fix:
  assumes "y = of_int n * ulp y"
  shows "fl y = y"
proof (cases "y = 0")
  case True
  then show ?thesis by (simp add: fl_0)
next
  case False
  have "y / ulp y = of_int n"
    using assms ulp_pos [of y] by (simp add: field_simps)
  then have "rhe (y / ulp y) = n" by (simp only: rhe_int)
  with False assms show ?thesis by (simp add: fl_def)
qed

lemma ulp_eq: "expo y = expo x \<Longrightarrow> ulp y = ulp x"
  by (simp add: ulp_def)

lemma fl_idem_pos:
  assumes "0 < x"
  shows "fl (fl x) = fl x"
proof -
  define n where "n = rhe (x / ulp x)"
  define u where "u = ulp x"
  define y where "y = of_int n * u"
  have y: "fl x = y" using assms by (simp add: fl_pos_form y_def n_def u_def)
  have u: "0 < u" by (simp add: u_def ulp_pos)
  have n0: "0 \<le> n"
    using assms ulp_pos [of x] by (simp add: n_def rhe_nonneg)
  have n53: "n \<le> 2 ^ 53" unfolding n_def using assms by (rule rhe_quot_upper)
  have u52: "u * 2 ^ 52 = 2 powr of_int (expo x)" unfolding u_def by (rule ulp_times_52)
  have u53: "u * 2 ^ 53 = 2 powr of_int (expo x + 1)" unfolding u_def by (rule ulp_times_53)
  consider "n = 0" | "n = 2 ^ 53" | "2 ^ 52 \<le> n" "n < 2 ^ 53" | "0 < n" "n < 2 ^ 52"
    using n0 n53 by linarith
  then have "fl y = y"
  proof cases
    case 1
    then show ?thesis by (simp add: y_def fl_0)
  next
    case 2
    then have yv: "y = 2 powr of_int (expo x + 1)"
      using u53 by (simp add: y_def mult.commute)
    have "expo y = expo x + 1"
    proof (rule expo_eqI)
      show "2 powr of_int (expo x + 1) \<le> \<bar>y\<bar>" by (simp add: yv)
      have "(2::real) powr of_int (expo x + 1) < 2 powr of_int (expo x + 1 + 1)"
        by (intro powr_less_mono) simp_all
      then show "\<bar>y\<bar> < 2 powr of_int (expo x + 1 + 1)" by (simp add: yv)
      show "- 1022 \<le> expo x + 1" using expo_ge [of x] by linarith
    qed
    then have "ulp y = 2 powr of_int ((expo x - 52) + 1)"
      by (simp add: ulp_def algebra_simps)
    also have "\<dots> = u * 2" unfolding pow_split by (simp add: u_def ulp_def)
    finally have uy: "ulp y = u * 2" .
    have "of_int (2 ^ 52) * ulp y = of_int (2 ^ 52) * (u * 2)" by (simp only: uy)
    also have "\<dots> = of_int (2 ^ 53) * u" by simp
    also have "\<dots> = y" using 2 by (simp add: y_def)
    finally have "y = of_int (2 ^ 52) * ulp y" by (rule sym)
    then show ?thesis by (rule fl_fix)
  next
    case 3
    have r: "(2 ^ 52 :: real) \<le> of_int n" "of_int n < (2 ^ 53 :: real)"
      using 3 by (metis of_int_le_iff of_int_numeral of_int_power,
          metis of_int_less_iff of_int_numeral of_int_power)
    have "expo y = expo x"
    proof (rule expo_eqI)
      have "2 powr of_int (expo x) = 2 ^ 52 * u" using u52 by (simp only: mult.commute)
      also have "\<dots> \<le> of_int n * u" using r(1) u by (intro mult_right_mono) simp_all
      finally show "2 powr of_int (expo x) \<le> \<bar>y\<bar>" using n0 u by (simp add: y_def)
      have "of_int n * u < 2 ^ 53 * u" using r(2) u by (intro mult_strict_right_mono)
      also have "\<dots> = 2 powr of_int (expo x + 1)" using u53 by (simp only: mult.commute)
      finally show "\<bar>y\<bar> < 2 powr of_int (expo x + 1)" using n0 u by (simp add: y_def)
      show "- 1022 \<le> expo x" by (rule expo_ge)
    qed
    then have "ulp y = u" unfolding u_def by (rule ulp_eq)
    then have "y = of_int n * ulp y" by (simp add: y_def)
    then show ?thesis by (rule fl_fix)
  next
    case 4
    have e: "expo x = - 1022"
    proof (rule ccontr)
      assume "expo x \<noteq> - 1022"
      with expo_ge [of x] have "- 1022 < expo x" by linarith
      with assms have "2 ^ 52 \<le> rhe (x / ulp x)" by (rule rhe_quot_lower)
      with 4 show False by (simp add: n_def)
    qed
    have r: "(0 :: real) < of_int n" "of_int n < (2 ^ 52 :: real)"
      using 4 by (simp, metis of_int_less_iff of_int_numeral of_int_power)
    have ypos: "0 < y" using r(1) u by (simp add: y_def)
    have "of_int n * u < 2 ^ 52 * u" using r(2) u by (intro mult_strict_right_mono)
    also have "\<dots> = 2 powr of_int (expo x)" using u52 by (simp only: mult.commute)
    finally have "\<bar>y\<bar> < 2 powr of_int (- 1022)" using ypos e by (simp add: y_def)
    with ypos have "expo y = - 1022" by (intro expo_subnormal) simp_all
    with e have "ulp y = u" unfolding u_def by (intro ulp_eq) simp
    then have "y = of_int n * ulp y" by (simp add: y_def)
    then show ?thesis by (rule fl_fix)
  qed
  with y show ?thesis by simp
qed

lemma fl_idem: "fl (fl x) = fl x"
proof -
  consider "0 < x" | "x = 0" | "x < 0" by linarith
  then show ?thesis
  proof cases
    case 1
    then show ?thesis by (rule fl_idem_pos)
  next
    case 2
    then show ?thesis by (simp add: fl_0)
  next
    case 3
    then have "fl (fl (- x)) = fl (- x)" by (intro fl_idem_pos) simp
    then show ?thesis by (simp add: fl_neg)
  qed
qed

subsection \<open>Evaluating the rounding at a given binade\<close>

lemma fl_eval:
  assumes "2 powr of_int e \<le> x" "x < 2 powr of_int (e + 1)" "- 1022 \<le> e"
  shows "fl x = of_int (rhe (x / 2 powr of_int (e - 52))) * 2 powr of_int (e - 52)"
proof -
  have "0 < (2::real) powr of_int e" by simp
  with assms(1) have pos: "0 < x" by linarith
  with assms have "expo x = e" by (intro expo_eqI) simp_all
  then have "ulp x = 2 powr of_int (e - 52)" by (simp only: ulp_def)
  with pos show ?thesis by (simp only: fl_pos_form)
qed

lemma pw_neg_int: "(2::real) powr of_int (- int m) = 1 / 2 ^ m"
  by (simp add: powr_minus powr_realpow inverse_eq_divide)

lemma pw_pos_int: "(2::real) powr of_int (int m) = 2 ^ m"
  by (simp add: powr_realpow)

lemma pw_one: "(2::real) powr of_int 1 = 2"
  by simp

lemma fl_eval_small:
  assumes "1 / 2 ^ n \<le> x" "x < 2 / 2 ^ n" "n \<le> 1022"
  shows "fl x = of_int (rhe (x * 2 ^ (n + 52))) / 2 ^ (n + 52)"
proof -
  have a: "2 powr of_int (- int n) \<le> x"
    using assms(1) by (simp only: pw_neg_int)
  have "(2::real) powr of_int (- int n + 1) = 2 powr of_int (- int n) * 2 powr of_int 1"
    by (rule pow_split)
  also have "\<dots> = 1 / 2 ^ n * 2" by (simp only: pw_neg_int pw_one)
  finally have "(2::real) powr of_int (- int n + 1) = 2 / 2 ^ n" by simp
  with assms(2) have b: "x < 2 powr of_int (- int n + 1)" by (simp only:)
  have c: "- 1022 \<le> - int n" using assms(3) by simp
  have "- int n - 52 = - int (n + 52)" by simp
  then have r: "(2::real) powr of_int (- int n - 52) = 1 / 2 ^ (n + 52)"
    by (simp only: pw_neg_int)
  have "fl x = of_int (rhe (x / 2 powr of_int (- int n - 52))) * 2 powr of_int (- int n - 52)"
    using a b c by (rule fl_eval)
  also have "\<dots> = of_int (rhe (x / (1 / 2 ^ (n + 52)))) * (1 / 2 ^ (n + 52))"
    by (simp only: r)
  also have "\<dots> = of_int (rhe (x * 2 ^ (n + 52))) / 2 ^ (n + 52)"
    by (simp only: divide_divide_eq_right times_divide_eq_right mult_1 mult_1_right div_by_1)
  finally show ?thesis .
qed


lemma fl_eval_big:
  assumes "2 ^ n \<le> x" "x < 2 * 2 ^ n" "n \<le> 52"
  shows "fl x = of_int (rhe (x * 2 ^ (52 - n))) / 2 ^ (52 - n)"
proof -
  have a: "2 powr of_int (int n) \<le> x"
    using assms(1) by (simp only: pw_pos_int)
  have "(2::real) powr of_int (int n + 1) = 2 powr of_int (int n) * 2 powr of_int 1"
    by (rule pow_split)
  also have "\<dots> = 2 ^ n * 2" by (simp only: pw_pos_int pw_one)
  finally have "(2::real) powr of_int (int n + 1) = 2 * 2 ^ n" by simp
  with assms(2) have b: "x < 2 powr of_int (int n + 1)" by (simp only:)
  have c: "- 1022 \<le> int n" by simp
  from assms(3) have "int n - 52 = - int (52 - n)" by simp
  then have r: "(2::real) powr of_int (int n - 52) = 1 / 2 ^ (52 - n)"
    by (simp only: pw_neg_int)
  have "fl x = of_int (rhe (x / 2 powr of_int (int n - 52))) * 2 powr of_int (int n - 52)"
    using a b c by (rule fl_eval)
  also have "\<dots> = of_int (rhe (x / (1 / 2 ^ (52 - n)))) * (1 / 2 ^ (52 - n))"
    by (simp only: r)
  also have "\<dots> = of_int (rhe (x * 2 ^ (52 - n))) / 2 ^ (52 - n)"
    by (simp only: divide_divide_eq_right times_divide_eq_right mult_1 mult_1_right div_by_1)
  finally show ?thesis .
qed

subsection \<open>Doubles met in the examples\<close>

text \<open>
  The values of the rounding at the arguments that the scenarios and examples below reach,
  each computed in the binade of its argument.
\<close>

lemma flc_1: "fl (1 / 20) = 3602879701896397 / 72057594037927936"
  by (subst fl_eval_small [where n = 5]) (simp_all add: rhe_def)

lemma flc_2: "fl (1 / 10) = 3602879701896397 / 36028797018963968"
  by (subst fl_eval_small [where n = 4]) (simp_all add: rhe_def)

lemma flc_3: "fl (19471113219505603967277331424215 / 162259276829213363391578010288128) = 1080863910568919 / 9007199254740992"
  by (subst fl_eval_small [where n = 4]) (simp_all add: rhe_def)

lemma flc_4: "fl (3 / 20) = 5404319552844595 / 36028797018963968"
  by (subst fl_eval_small [where n = 3]) (simp_all add: rhe_def)

lemma flc_5: "fl (29206669829258407752355848084521 / 162259276829213363391578010288128) = 6485183463413515 / 36028797018963968"
  by (subst fl_eval_small [where n = 3]) (simp_all add: rhe_def)

lemma flc_6: "fl (1 / 5) = 3602879701896397 / 18014398509481984"
  by (subst fl_eval_small [where n = 3]) (simp_all add: rhe_def)

lemma flc_7: "fl (3602879701896397 / 18014398509481984) = 3602879701896397 / 18014398509481984"
  by (subst fl_eval_small [where n = 3]) (simp_all add: rhe_def)

lemma flc_8: "fl (19471113219505603967277331424215 / 81129638414606681695789005144064) = 1080863910568919 / 4503599627370496"
  by (subst fl_eval_small [where n = 3]) (simp_all add: rhe_def)

lemma flc_9: "fl (1 / 4) = 1 / 4"
  by (subst fl_eval_small [where n = 2]) (simp_all add: rhe_def)

lemma flc_10: "fl (3 / 10) = 5404319552844595 / 18014398509481984"
  by (subst fl_eval_small [where n = 2]) (simp_all add: rhe_def)

lemma flc_11: "fl (12980742146337070512478121581609 / 40564819207303340847894502572032) = 1441151880758559 / 4503599627370496"
  by (subst fl_eval_small [where n = 2]) (simp_all add: rhe_def)

lemma flc_12: "fl (29206669829258407752355848084521 / 81129638414606681695789005144064) = 6485183463413515 / 18014398509481984"
  by (subst fl_eval_small [where n = 2]) (simp_all add: rhe_def)

lemma flc_13: "fl (14411518807585587 / 36028797018963968) = 3602879701896397 / 9007199254740992"
  by (subst fl_eval_small [where n = 2]) (simp_all add: rhe_def)

lemma flc_14: "fl (2 / 5) = 3602879701896397 / 9007199254740992"
  by (subst fl_eval_small [where n = 2]) (simp_all add: rhe_def)

lemma flc_15: "fl (3602879701896397 / 9007199254740992) = 3602879701896397 / 9007199254740992"
  by (subst fl_eval_small [where n = 2]) (simp_all add: rhe_def)

lemma flc_16: "fl (1080863910568919 / 2251799813685248) = 1080863910568919 / 2251799813685248"
  by (subst fl_eval_small [where n = 2]) (simp_all add: rhe_def)

lemma flc_17: "fl (1 / 2) = 1 / 2"
  by (subst fl_eval_small [where n = 1]) (simp_all add: rhe_def)

lemma flc_18: "fl (18014398509481985 / 36028797018963968) = 1 / 2"
  by (subst fl_eval_small [where n = 1]) (simp_all add: rhe_def)

lemma flc_19: "fl (5404319552844595 / 9007199254740992) = 5404319552844595 / 9007199254740992"
  by (subst fl_eval_small [where n = 1]) (simp_all add: rhe_def)

lemma flc_20: "fl (3 / 5) = 5404319552844595 / 9007199254740992"
  by (subst fl_eval_small [where n = 1]) (simp_all add: rhe_def)

lemma flc_21: "fl (21617278211378381 / 36028797018963968) = 5404319552844595 / 9007199254740992"
  by (subst fl_eval_small [where n = 1]) (simp_all add: rhe_def)

lemma flc_22: "fl (10808639105689191 / 18014398509481984) = 1351079888211149 / 2251799813685248"
  by (subst fl_eval_small [where n = 1]) (simp_all add: rhe_def)

lemma flc_23: "fl (12249790986447751 / 18014398509481984) = 1531223873305969 / 2251799813685248"
  by (subst fl_eval_small [where n = 1]) (simp_all add: rhe_def)

lemma flc_24: "fl (7 / 10) = 3152519739159347 / 4503599627370496"
  by (subst fl_eval_small [where n = 1]) (simp_all add: rhe_def)

lemma flc_25: "fl (27021597764222975 / 36028797018963968) = 3 / 4"
  by (subst fl_eval_small [where n = 1]) (simp_all add: rhe_def)

lemma flc_26: "fl (28823037615171173 / 36028797018963968) = 7205759403792793 / 9007199254740992"
  by (subst fl_eval_small [where n = 1]) (simp_all add: rhe_def)

lemma flc_27: "fl (4 / 5) = 3602879701896397 / 4503599627370496"
  by (subst fl_eval_small [where n = 1]) (simp_all add: rhe_def)

lemma flc_28: "fl (30984765436309019 / 36028797018963968) = 7746191359077255 / 9007199254740992"
  by (subst fl_eval_small [where n = 1]) (simp_all add: rhe_def)

lemma flc_29: "fl (9 / 10) = 8106479329266893 / 9007199254740992"
  by (subst fl_eval_small [where n = 1]) (simp_all add: rhe_def)

lemma flc_30: "fl (8106479329266893 / 9007199254740992) = 8106479329266893 / 9007199254740992"
  by (subst fl_eval_small [where n = 1]) (simp_all add: rhe_def)

lemma flc_31: "fl (32425917317067573 / 36028797018963968) = 8106479329266893 / 9007199254740992"
  by (subst fl_eval_small [where n = 1]) (simp_all add: rhe_def)

lemma flc_32: "fl (1) = 1"
  by (subst fl_eval_big [where n = 0]) (simp_all add: rhe_def)

lemma flc_33: "fl (11 / 10) = 2476979795053773 / 2251799813685248"
  by (subst fl_eval_big [where n = 0]) (simp_all add: rhe_def)

lemma flc_34: "fl (39631676720860365 / 36028797018963968) = 2476979795053773 / 2251799813685248"
  by (subst fl_eval_big [where n = 0]) (simp_all add: rhe_def)

lemma flc_35: "fl (19815838360430183 / 18014398509481984) = 2476979795053773 / 2251799813685248"
  by (subst fl_eval_big [where n = 0]) (simp_all add: rhe_def)

lemma flc_36: "fl (41433116571808563 / 36028797018963968) = 2589569785738035 / 2251799813685248"
  by (subst fl_eval_big [where n = 0]) (simp_all add: rhe_def)

lemma flc_37: "fl (5 / 4) = 5 / 4"
  by (subst fl_eval_big [where n = 0]) (simp_all add: rhe_def)

lemma flc_38: "fl (45035996273704963 / 36028797018963968) = 5 / 4"
  by (subst fl_eval_big [where n = 0]) (simp_all add: rhe_def)

lemma flc_39: "fl (3 / 2) = 3 / 2"
  by (subst fl_eval_big [where n = 0]) (simp_all add: rhe_def)

lemma flc_40: "fl (9457559217478041 / 4503599627370496) = 1182194902184755 / 562949953421312"
  by (subst fl_eval_big [where n = 1]) (simp_all add: rhe_def)

lemma flc_41: "fl (21 / 10) = 4728779608739021 / 2251799813685248"
  by (subst fl_eval_big [where n = 1]) (simp_all add: rhe_def)

lemmas fl_values =
  flc_1 flc_2 flc_3 flc_4 flc_5 flc_6 flc_7 flc_8
  flc_9 flc_10 flc_11 flc_12 flc_13 flc_14 flc_15 flc_16
  flc_17 flc_18 flc_19 flc_20 flc_21 flc_22 flc_23 flc_24
  flc_25 flc_26 flc_27 flc_28 flc_29 flc_30 flc_31 flc_32
  flc_33 flc_34 flc_35 flc_36 flc_37 flc_38 flc_39 flc_40
  flc_41

section \<open>Properties of the scorer\<close>

lemma price_factor_spec_multiplier:
  "price_factor (get_or (price_sensitivity c) ''medium'') = spec_multiplier c"
  by (simp add: price_factor_def spec_multiplier_def get_or_def split: option.splits)

lemma clamp01_max_min: "max 0 (min 1 x) = clamp01 x"
  by (simp add: clamp01_def max_def min_def)

lemma fsub_fadd: "fsub s k = fadd s (- k)"
  by (simp add: fsub_def fadd_def)

lemma adjust1: "(if b then fadd s k else s) = foldl fadd s (if b then [k] else [])"
  by simp

lemma adjust2:
  "(if b then fadd s k else fsub s k') = foldl fadd s (if b then [k] else [- k'])"
  by (simp add: fsub_fadd)

lemma adjust3:
  "(if b then fadd s k else if b' then fsub s k' else s)
     = foldl fadd s (if b then [k] else if b' then [- k'] else [])"
  by (simp add: fsub_fadd)

lemma score_product_refines: "score_product c p = spec_relevance c p"
  unfolding score_product_def spec_relevance_def spec_adjustments_def Let_def
    clamp01_max_min price_factor_spec_multiplier adjust1 adjust2 adjust3 foldl_append
    spec_location_adj_def spec_season_adj_def spec_holiday_adj_def spec_price_adj_def
    spec_rating_adj_def spec_sentiment_adj_def
  by (rule refl)

lemma score_product_bounds: "0 \<le> score_product c p \<and> score_product c p \<le> 1"
  unfolding score_product_def Let_def clamp01_max_min by (simp add: clamp01_def)

text \<open>
  Claim C2. The relevance score of a product for a customer is the base recommendation
  probability (0.5 when absent) with the adjustments that hold added to it one after the
  other, in floating-point arithmetic: 0.15 for a location match, 0.1 for a season match,
  0.1 for a holiday-flag match, 0.1 if the price is at most the average order value times
  the price-sensitivity multiplier (low 1.5, medium 1.0, high 0.7; the product is a
  floating-point product) and - 0.1 otherwise, 0.1 for a rating of at least 4.0 and - 0.1
  for one of at most 2.0, 0.05 for a sentiment of at least 0.7 and - 0.05 for one of at
  most 0.3; the sum is clamped once at the end. The literals 0.5 and 1.5 are doubles; the
  other decimal literals stand for their nearest doubles. The score always lies between 0
  and 1, and
  scoring a list returns one scored copy per product, in order, that differs from its input
  in the relevance score only.
\<close>

theorem relevance_score_spec:
  "score_product c p = spec_relevance c p
   \<and> 0 \<le> score_product c p \<and> score_product c p \<le> 1
   \<and> fl 0.5 = 0.5 \<and> fl 1.5 = 1.5
   \<and> length (filter_products_for_customer ps c) = length ps
   \<and> map relevance_score (filter_products_for_customer ps c)
       = map (\<lambda>q. Some (spec_relevance c q)) ps
   \<and> map (\<lambda>q. q\<lparr>relevance_score := None\<rparr>) (filter_products_for_customer ps c)
       = map (\<lambda>q. q\<lparr>relevance_score := None\<rparr>) ps"
proof -
  have "map relevance_score (filter_products_for_customer ps c)
       = map (\<lambda>q. Some (spec_relevance c q)) ps"
    by (simp add: filter_products_for_customer_def score_product_refines)
  moreover have "map (\<lambda>q. q\<lparr>relevance_score := None\<rparr>) (filter_products_for_customer ps c)
       = map (\<lambda>q. q\<lparr>relevance_score := None\<rparr>) ps"
    by (simp add: filter_products_for_customer_def)
  moreover have "length (filter_products_for_customer ps c) = length ps"
    by (simp add: filter_products_for_customer_def)
  moreover have "fl 0.5 = 0.5" "fl 1.5 = 1.5"
    by (simp_all add: fl_values)
  ultimately show ?thesis
    using score_product_bounds [of c p] score_product_refines [of c p] by blast
qed

text \<open>
  The price test follows the rounded product. In doubles
  \<^verbatim>\<open>3 * 0.7 = 2.0999999999999996\<close>, so a price of 2.1 does not fit an average
  order value of 3 at high price sensitivity, and the score is \<^verbatim>\<open>0.5 - 0.1\<close>.
\<close>

lemma score_product_rounding_example:
  "score_product
     (blank_customer\<lparr>avg_order_value := Some 3, price_sensitivity := Some ''high''\<rparr>)
     (blank_product\<lparr>price := Some (fl 2.1), product_rating := Some 3,
                     sentiment_score := Some 0.5\<rparr>)
   = fl 0.4"
  by (simp add: score_product_def price_factor_def get_or_def blank_customer_def
      blank_product_def fadd_def fsub_def fmul_def fl_values)

section \<open>Properties of the strategy engines\<close>

subsection \<open>The descending stable sort\<close>

lemma sorted_reverse_sorted: "sorted_wrt (\<lambda>a b. f a \<ge> f b) (sorted_reverse f xs)"
proof -
  have "sorted (map (\<lambda>x. - f x) (sort_key (\<lambda>x. - f x) xs))"
    by (rule sorted_sort_key)
  then show ?thesis
    by (simp add: sorted_reverse_def sorted_wrt_map)
qed

lemma sorted_reverse_mset: "mset (sorted_reverse f xs) = mset xs"
  by (simp add: sorted_reverse_def)

lemma sorted_reverse_stable:
  "filter (\<lambda>x. f x = k) (sorted_reverse f xs) = filter (\<lambda>x. f x = k) xs"
proof -
  have "filter (\<lambda>x. - f x = - k) (sort_key (\<lambda>x. - f x) xs) = filter (\<lambda>x. - f x = - k) xs"
    by (rule sort_key_stable)
  then show ?thesis by (simp add: sorted_reverse_def)
qed

lemma sorted_reverse_length: "length (sorted_reverse f xs) = length xs"
  by (simp add: sorted_reverse_def)

lemma sorted_reverse_set: "set (sorted_reverse f xs) = set xs"
  by (simp add: sorted_reverse_def)

lemma sorted_reverse_Nil: "sorted_reverse f [] = []"
  by (simp add: sorted_reverse_def)

lemma sorted_wrt_take_desc: "sorted_wrt R xs \<Longrightarrow> sorted_wrt R (take n xs)"
proof -
  assume "sorted_wrt R xs"
  then have "sorted_wrt R (take n xs @ drop n xs)" by simp
  then show ?thesis unfolding sorted_wrt_append by blast
qed

subsection \<open>Empty candidate lists\<close>

text \<open>
  Claim C9. With no candidate product (the key \<^verbatim>\<open>products\<close> absent or holding the
  empty list), each of the four strategy engines returns the empty recommendation list.
  The engines are total functions on typed input: none of them has a raising path, so the
  empty list is a result and not an error.
\<close>

theorem empty_candidates:
  assumes "available_products pd = []"
  shows "collaborative_filtering_strategy c pd = []
       \<and> content_based_strategy c pd = []
       \<and> popularity_based_strategy fmt c pd = []
       \<and> hybrid_strategy fmt c pd = []"
  using assms
  by (simp add: collaborative_filtering_strategy_def content_based_strategy_def
      popularity_based_strategy_def hybrid_strategy_def combined_recs_def merged_recs_def
      sorted_reverse_Nil)

theorem empty_candidates_witness:
  "available_products \<lparr>products = Some []\<rparr> = []
   \<and> available_products \<lparr>products = None\<rparr> = []
   \<and> hybrid_strategy (\<lambda>_. []) blank_customer \<lparr>products = Some []\<rparr> = []
   \<and> hybrid_strategy (\<lambda>_. []) blank_customer \<lparr>products = None\<rparr> = []"
  using empty_candidates [of "\<lparr>products = Some []\<rparr>" blank_customer "\<lambda>_. []"]
        empty_candidates [of "\<lparr>products = None\<rparr>" blank_customer "\<lambda>_. []"]
  by (simp add: available_products_def get_or_def)

subsection \<open>Popularity-based and content-based engines\<close>

lemma popularity_based_unfold:
  "popularity_based_strategy fmt c pd =
     map (popularity_rec fmt)
       (take 10 (sorted_reverse (\<lambda>p. get_or (product_rating p) 0) (available_products pd)))"
  by (simp add: popularity_based_strategy_def sorted_reverse_Nil)

lemma content_based_unfold:
  "content_based_strategy c pd =
     take 10 (sorted_reverse score (map (content_rec c) (available_products pd)))"
  by (simp add: content_based_strategy_def sorted_reverse_Nil)

lemma collaborative_unfold:
  "collaborative_filtering_strategy c pd =
     map (collaborative_rec c)
       (take 10 (sorted_reverse (\<lambda>p. get_or (relevance_score p) 0) (available_products pd)))"
  by (simp add: collaborative_filtering_strategy_def sorted_reverse_Nil)

lemma content_score_sum:
  "content_score c p =
     foldl fadd (get_or (relevance_score p) 0)
       ((if get_or (category p) [] \<in> set (get_or (browsing_history c) [])
         then [fl 0.1] else [])
        @ (if get_or (category p) [] \<in> set (get_or (purchase_history c) [])
           then [fl 0.15] else []))"
  by (simp add: content_score_def Let_def)

text \<open>
  Claim C8. The popularity-based engine returns at most 10 recommendations. They are the
  first 10 of the candidates ordered by product rating descending, candidates of equal
  rating keeping their original order, and each carries the score rating / 5.0, a
  floating-point division. Candidates rated 4.5 and 3.0 yield the scores 0.9 and 0.6 (the
  doubles of these literals), in that order.
\<close>

theorem popularity_based_spec:
  "length (popularity_based_strategy fmt c pd) \<le> 10
   \<and> (\<exists>S. mset S = mset (available_products pd)
          \<and> sorted_wrt (\<lambda>a b. get_or (product_rating a) 0 \<ge> get_or (product_rating b) 0) S
          \<and> (\<forall>k. filter (\<lambda>p. get_or (product_rating p) 0 = k) S
                  = filter (\<lambda>p. get_or (product_rating p) 0 = k) (available_products pd))
          \<and> map rec_product_id (popularity_based_strategy fmt c pd) = map product_id (take 10 S)
          \<and> map score (popularity_based_strategy fmt c pd)
              = map (\<lambda>p. fdiv (get_or (product_rating p) 0) 5) (take 10 S))
   \<and> (product_rating p1 = Some 4.5 \<and> product_rating p2 = Some 3.0 \<longrightarrow>
        map score (popularity_based_strategy fmt c \<lparr>products = Some [p1, p2]\<rparr>) = [fl 0.9, fl 0.6]
        \<and> map rec_product_id (popularity_based_strategy fmt c \<lparr>products = Some [p1, p2]\<rparr>)
            = [product_id p1, product_id p2])"
proof (intro conjI impI)
  show "length (popularity_based_strategy fmt c pd) \<le> 10"
    by (simp add: popularity_based_unfold)
next
  let ?S = "sorted_reverse (\<lambda>p. get_or (product_rating p) 0) (available_products pd)"
  have "mset ?S = mset (available_products pd)"
    by (rule sorted_reverse_mset)
  moreover have "sorted_wrt (\<lambda>a b. get_or (product_rating a) 0 \<ge> get_or (product_rating b) 0) ?S"
    by (rule sorted_reverse_sorted)
  moreover have "\<forall>k. filter (\<lambda>p. get_or (product_rating p) 0 = k) ?S
                  = filter (\<lambda>p. get_or (product_rating p) 0 = k) (available_products pd)"
    by (simp add: sorted_reverse_stable)
  moreover have "map rec_product_id (popularity_based_strategy fmt c pd) = map product_id (take 10 ?S)"
    by (simp add: popularity_based_unfold popularity_rec_def o_def)
  moreover have "map score (popularity_based_strategy fmt c pd)
              = map (\<lambda>p. fdiv (get_or (product_rating p) 0) 5) (take 10 ?S)"
    by (simp add: popularity_based_unfold popularity_rec_def o_def)
  ultimately show "\<exists>S. mset S = mset (available_products pd)
          \<and> sorted_wrt (\<lambda>a b. get_or (product_rating a) 0 \<ge> get_or (product_rating b) 0) S
          \<and> (\<forall>k. filter (\<lambda>p. get_or (product_rating p) 0 = k) S
                  = filter (\<lambda>p. get_or (product_rating p) 0 = k) (available_products pd))
          \<and> map rec_product_id (popularity_based_strategy fmt c pd) = map product_id (take 10 S)
          \<and> map score (popularity_based_strategy fmt c pd)
              = map (\<lambda>p. fdiv (get_or (product_rating p) 0) 5) (take 10 S)"
    by blast
next
  assume h: "product_rating p1 = Some 4.5 \<and> product_rating p2 = Some 3.0"
  then show "map score (popularity_based_strategy fmt c \<lparr>products = Some [p1, p2]\<rparr>) = [fl 0.9, fl 0.6]"
    by (simp add: popularity_based_unfold available_products_def get_or_def
        sorted_reverse_def popularity_rec_def fdiv_def)
  from h show "map rec_product_id (popularity_based_strategy fmt c \<lparr>products = Some [p1, p2]\<rparr>)
            = [product_id p1, product_id p2]"
    by (simp add: popularity_based_unfold available_products_def get_or_def
        sorted_reverse_def popularity_rec_def fdiv_def)
qed

theorem popularity_based_spec_witness:
  "product_rating (blank_product\<lparr>product_id := Some ''P1'', product_rating := Some 4.5\<rparr>) = Some 4.5
   \<and> product_rating (blank_product\<lparr>product_id := Some ''P2'', product_rating := Some 3.0\<rparr>) = Some 3.0
   \<and> map score (popularity_based_strategy (\<lambda>_. []) blank_customer
        \<lparr>products = Some [blank_product\<lparr>product_id := Some ''P1'', product_rating := Some 4.5\<rparr>,
                           blank_product\<lparr>product_id := Some ''P2'', product_rating := Some 3.0\<rparr>]\<rparr>)
       = [fl 0.9, fl 0.6]
   \<and> map rec_product_id (popularity_based_strategy (\<lambda>_. []) blank_customer
        \<lparr>products = Some [blank_product\<lparr>product_id := Some ''P1'', product_rating := Some 4.5\<rparr>,
                           blank_product\<lparr>product_id := Some ''P2'', product_rating := Some 3.0\<rparr>]\<rparr>)
       = [Some ''P1'', Some ''P2'']"
  using popularity_based_spec
    [where ?p1.0 = "blank_product\<lparr>product_id := Some ''P1'', product_rating := Some 4.5\<rparr>"
       and ?p2.0 = "blank_product\<lparr>product_id := Some ''P2'', product_rating := Some 3.0\<rparr>"
       and fmt = "\<lambda>_. []" and c = blank_customer
       and pd = "\<lparr>products = Some [blank_product\<lparr>product_id := Some ''P1'', product_rating := Some 4.5\<rparr>,
                           blank_product\<lparr>product_id := Some ''P2'', product_rating := Some 3.0\<rparr>]\<rparr>"]
  by (simp add: blank_product_def)

text \<open>
  Claim C7. The content-based engine scores a candidate as its relevance score, plus 0.10
  if its category occurs in the browsing history, plus 0.15 if its category occurs in the
  purchase history (both boosts can apply, the browsing boost being added first; the
  additions are floating-point additions). Its output is the first 10 of the scored
  candidates ordered by that score descending. A candidate of relevance score 0.5 whose
  category occurs in both histories scores 0.75.
\<close>

theorem content_based_spec:
  "content_score c p =
     foldl fadd (get_or (relevance_score p) 0)
       ((if get_or (category p) [] \<in> set (get_or (browsing_history c) [])
         then [fl 0.1] else [])
        @ (if get_or (category p) [] \<in> set (get_or (purchase_history c) [])
           then [fl 0.15] else []))
   \<and> (\<exists>S. mset S = mset (map (content_rec c) (available_products pd))
          \<and> sorted_wrt (\<lambda>a b. score a \<ge> score b) S
          \<and> content_based_strategy c pd = take 10 S)
   \<and> sorted_wrt (\<lambda>a b. score a \<ge> score b) (content_based_strategy c pd)
   \<and> (\<forall>r \<in> set (content_based_strategy c pd).
         \<exists>q \<in> set (available_products pd).
           rec_product_id r = product_id q \<and> score r = content_score c q)
   \<and> (relevance_score p = Some 0.5 \<and> category p = Some cat
        \<and> browsing_history c = Some bh \<and> purchase_history c = Some ph
        \<and> cat \<in> set bh \<and> cat \<in> set ph
       \<longrightarrow> content_score c p = 0.75)"
proof (intro conjI impI ballI)
  show "content_score c p =
     foldl fadd (get_or (relevance_score p) 0)
       ((if get_or (category p) [] \<in> set (get_or (browsing_history c) [])
         then [fl 0.1] else [])
        @ (if get_or (category p) [] \<in> set (get_or (purchase_history c) [])
           then [fl 0.15] else []))"
    by (rule content_score_sum)
next
  let ?S = "sorted_reverse score (map (content_rec c) (available_products pd))"
  have "mset ?S = mset (map (content_rec c) (available_products pd))"
    by (rule sorted_reverse_mset)
  moreover have "sorted_wrt (\<lambda>a b. score a \<ge> score b) ?S"
    by (rule sorted_reverse_sorted)
  moreover have "content_based_strategy c pd = take 10 ?S"
    by (rule content_based_unfold)
  ultimately show "\<exists>S. mset S = mset (map (content_rec c) (available_products pd))
          \<and> sorted_wrt (\<lambda>a b. score a \<ge> score b) S
          \<and> content_based_strategy c pd = take 10 S"
    by blast
next
  show "sorted_wrt (\<lambda>a b. score a \<ge> score b) (content_based_strategy c pd)"
    unfolding content_based_unfold
    by (rule sorted_wrt_take_desc) (rule sorted_reverse_sorted)
next
  fix r assume "r \<in> set (content_based_strategy c pd)"
  then have "r \<in> set (sorted_reverse score (map (content_rec c) (available_products pd)))"
    unfolding content_based_unfold by (rule in_set_takeD)
  then obtain q where "q \<in> set (available_products pd)" "r = content_rec c q"
    by (auto simp: sorted_reverse_set)
  then show "\<exists>q \<in> set (available_products pd).
           rec_product_id r = product_id q \<and> score r = content_score c q"
    by (auto simp: content_rec_def)
next
  assume "relevance_score p = Some 0.5 \<and> category p = Some cat
        \<and> browsing_history c = Some bh \<and> purchase_history c = Some ph
        \<and> cat \<in> set bh \<and> cat \<in> set ph"
  then show "content_score c p = 0.75"
    by (simp add: content_score_sum get_or_def fadd_def fl_values)
qed

theorem content_based_spec_witness:
  "relevance_score (blank_product\<lparr>product_id := Some ''P9'', category := Some ''Books'',
                                  relevance_score := Some 0.5\<rparr>) = Some 0.5
   \<and> ''Books'' \<in> set [''Books'']
   \<and> content_score (blank_customer\<lparr>browsing_history := Some [''Books''],
                                     purchase_history := Some [''Books'']\<rparr>)
        (blank_product\<lparr>product_id := Some ''P9'', category := Some ''Books'',
                        relevance_score := Some 0.5\<rparr>) = 0.75
   \<and> map score (content_based_strategy
        (blank_customer\<lparr>browsing_history := Some [''Books''],
                         purchase_history := Some [''Books'']\<rparr>)
        \<lparr>products = Some [blank_product\<lparr>product_id := Some ''P9'', category := Some ''Books'',
                                          relevance_score := Some 0.5\<rparr>]\<rparr>) = [0.75]"
  using content_based_spec
    [where p = "blank_product\<lparr>product_id := Some ''P9'', category := Some ''Books'',
                              relevance_score := Some 0.5\<rparr>"
       and c = "blank_customer\<lparr>browsing_history := Some [''Books''],
                                purchase_history := Some [''Books'']\<rparr>"
       and cat = "''Books''" and bh = "[''Books'']" and ph = "[''Books'']"
       and pd = "\<lparr>products = Some [blank_product\<lparr>product_id := Some ''P9'', category := Some ''Books'',
                                          relevance_score := Some 0.5\<rparr>]\<rparr>"]
  by (simp add: blank_product_def blank_customer_def content_based_unfold
      available_products_def get_or_def sorted_reverse_def content_rec_def)

text \<open>
  The order follows the rounded sums: with \<^verbatim>\<open>Books\<close> browsed, a book of relevance
  0.7 scores \<^verbatim>\<open>0.7 + 0.1 = 0.7999999999999999\<close> and comes after a toy of
  relevance 0.8.
\<close>

lemma content_based_rounding_example:
  "map rec_product_id (content_based_strategy
       (blank_customer\<lparr>browsing_history := Some [''Books'']\<rparr>)
       \<lparr>products = Some
          [blank_product\<lparr>product_id := Some ''A'', category := Some ''Books'',
                         relevance_score := Some (fl 0.7)\<rparr>,
           blank_product\<lparr>product_id := Some ''B'', category := Some ''Toys'',
                         relevance_score := Some (fl 0.8)\<rparr>]\<rparr>)
     = [Some ''B'', Some ''A'']"
  by (simp add: blank_product_def blank_customer_def content_based_unfold
      available_products_def get_or_def sorted_reverse_def content_rec_def
      content_score_def fadd_def fl_values)

subsection \<open>The merging loop of the hybrid engine\<close>

lemma map_of_map_key:
  "map_of (map (\<lambda>(k', r). if k' = pid then (k', f r) else (k', r)) al) k
     = (if k = pid then map_option f (map_of al k) else map_of al k)"
  by (induction al) auto

lemma keys_map_key:
  "map fst (map (\<lambda>(k', r). if k' = pid then (k', f r) else (k', r)) al) = map fst al"
  by (induction al) auto

lemma keys_add_rec:
  "map fst (add_rec w cr al rec)
     = (if rec_product_id rec \<in> set (map fst al) then map fst al
        else map fst al @ [rec_product_id rec])"
  by (auto simp: add_rec_def Let_def split: prod.splits)

lemma set_keys_add_rec:
  "fst ` set (add_rec w cr al rec) = insert (rec_product_id rec) (fst ` set al)"
proof -
  have "set (map fst (add_rec w cr al rec)) = insert (rec_product_id rec) (set (map fst al))"
    unfolding keys_add_rec by auto
  then show ?thesis by simp
qed

lemma map_of_add_rec:
  "map_of (add_rec w cr al rec) k =
     (if k = rec_product_id rec
      then Some (case map_of al k of
                   None \<Rightarrow> rec\<lparr>score := fmul (score rec) w\<rparr>
                 | Some r \<Rightarrow> r\<lparr>score := fadd (score r) (fmul (score rec) w),
                              reason := (if cr then reason r @ '' and '' @ reason rec
                                         else reason r)\<rparr>)
      else map_of al k)"
proof (cases "rec_product_id rec \<in> set (map fst al)")
  case True
  then obtain r where "map_of al (rec_product_id rec) = Some r"
    by (metis domD dom_map_of_conv_image_fst set_map)
  with True show ?thesis
    by (simp add: add_rec_def Let_def map_of_map_key)
next
  case False
  then have "map_of al (rec_product_id rec) = None"
    by (simp add: map_of_eq_None_iff)
  with False show ?thesis
    by (auto simp: add_rec_def Let_def map_add_def split: option.splits)
qed

lemma distinct_add_rec:
  "distinct (map fst al) \<Longrightarrow> distinct (map fst (add_rec w cr al rec))"
  by (simp add: keys_add_rec)

lemma distinct_fold_add_rec:
  "distinct (map fst al) \<Longrightarrow> distinct (map fst (foldl (add_rec w cr) al recs))"
  by (induction recs arbitrary: al) (simp_all add: distinct_add_rec)

lemma keys_fold_add_rec:
  "set (map fst (foldl (add_rec w cr) al recs))
     = set (map fst al) \<union> rec_product_id ` set recs"
  by (induction recs arbitrary: al) (auto simp: set_keys_add_rec)

lemma entry_ok_add_rec: "entry_ok al \<Longrightarrow> entry_ok (add_rec w cr al rec)"
  by (auto simp: entry_ok_def map_of_add_rec split: if_splits option.splits)

lemma entry_ok_fold: "entry_ok al \<Longrightarrow> entry_ok (foldl (add_rec w cr) al recs)"
  by (induction recs arbitrary: al) (simp_all add: entry_ok_add_rec)

lemma score_of_add_rec:
  "score_of (add_rec w cr al rec) k
     = (if k = rec_product_id rec
        then Some (case score_of al k of
                     None \<Rightarrow> fmul (score rec) w
                   | Some s \<Rightarrow> fadd s (fmul (score rec) w))
        else score_of al k)"
  by (simp add: score_of_def map_of_add_rec split: option.splits)

lemma score_of_fold:
  "score_of (foldl (add_rec w cr) al recs) k = blend w (score_of al k) (listed recs k)"
proof (induction recs arbitrary: al)
  case Nil
  then show ?case by (simp add: listed_def)
next
  case (Cons rec recs)
  show ?case
    by (simp add: Cons.IH score_of_add_rec listed_def)
qed

lemma reason_const_add_rec:
  assumes "reason rec = R" and "\<forall>k r. map_of al k = Some r \<longrightarrow> reason r = R"
  shows "\<forall>k r. map_of (add_rec w False al rec) k = Some r \<longrightarrow> reason r = R"
  using assms by (auto simp: map_of_add_rec split: if_splits option.splits)

lemma reason_const_fold:
  assumes "\<forall>rec \<in> set recs. reason rec = R"
    and "\<forall>k r. map_of al k = Some r \<longrightarrow> reason r = R"
  shows "\<forall>k r. map_of (foldl (add_rec w False) al recs) k = Some r \<longrightarrow> reason r = R"
  using assms
proof (induction recs arbitrary: al)
  case Nil
  then show ?case by simp
next
  case (Cons rec recs)
  have "\<forall>k r. map_of (add_rec w False al rec) k = Some r \<longrightarrow> reason r = R"
    using Cons.prems by (intro reason_const_add_rec) simp_all
  with Cons.IH [of "add_rec w False al rec"] Cons.prems(1) show ?case by simp
qed

lemma reason_keep_fold:
  assumes "map_of al k = Some r"
  shows "\<exists>r'. map_of (foldl (add_rec w False) al recs) k = Some r' \<and> reason r' = reason r"
  using assms
proof (induction recs arbitrary: al r)
  case Nil
  then show ?case by simp
next
  case (Cons rec recs)
  from Cons.prems have "\<exists>r1. map_of (add_rec w False al rec) k = Some r1 \<and> reason r1 = reason r"
    by (cases "k = rec_product_id rec") (simp_all add: map_of_add_rec)
  then obtain r1 where "map_of (add_rec w False al rec) k = Some r1" "reason r1 = reason r"
    by blast
  with Cons.IH [of "add_rec w False al rec" r1] show ?case by simp
qed

lemma reason_append_fold:
  assumes "map_of al k = Some r"
  shows "\<exists>r'. map_of (foldl (add_rec w True) al recs) k = Some r'
          \<and> reason r' = reason r
               @ concat (map (\<lambda>x. '' and '' @ reason x)
                           (filter (\<lambda>x. rec_product_id x = k) recs))"
  using assms
proof (induction recs arbitrary: al r)
  case Nil
  then show ?case by simp
next
  case (Cons rec recs)
  from Cons.prems have "\<exists>r1. map_of (add_rec w True al rec) k = Some r1
      \<and> reason r1 = reason r @ (if rec_product_id rec = k then '' and '' @ reason rec else [])"
    by (cases "k = rec_product_id rec") (simp_all add: map_of_add_rec)
  then obtain r1 where r1: "map_of (add_rec w True al rec) k = Some r1"
    "reason r1 = reason r @ (if rec_product_id rec = k then '' and '' @ reason rec else [])"
    by blast
  from Cons.IH [OF r1(1)] r1(2) show ?case by auto
qed

lemma filter_single:
  "distinct (map f xs) \<Longrightarrow> x \<in> set xs \<Longrightarrow> filter (\<lambda>y. f y = f x) xs = [x]"
proof (induction xs)
  case Nil
  then show ?case by simp
next
  case (Cons a xs)
  show ?case
  proof (cases "a = x")
    case True
    with Cons.prems have "\<forall>y \<in> set xs. f y \<noteq> f x" by (auto simp: image_iff)
    then have "filter (\<lambda>y. f y = f x) xs = []" by (simp add: filter_empty_conv)
    with True show ?thesis by simp
  next
    case False
    with Cons.prems have "x \<in> set xs" "f a \<noteq> f x" by auto
    with Cons show ?thesis by simp
  qed
qed

lemma listed_absent:
  "k \<notin> rec_product_id ` set recs \<Longrightarrow> listed recs k = []"
  by (auto simp: listed_def filter_empty_conv)

lemma contribution_absent:
  "k \<notin> rec_product_id ` set recs \<Longrightarrow> contribution recs k = 0"
  by (simp add: contribution_def listed_absent)

lemma listed_single:
  "distinct (map rec_product_id recs) \<Longrightarrow> x \<in> set recs
     \<Longrightarrow> listed recs (rec_product_id x) = [score x]"
  by (simp add: listed_def filter_single)

lemma contribution_single:
  "distinct (map rec_product_id recs) \<Longrightarrow> x \<in> set recs
     \<Longrightarrow> contribution recs (rec_product_id x) = score x"
  by (simp add: contribution_def listed_single)

lemma listed_cases:
  assumes "distinct (map rec_product_id recs)"
  shows "(listed recs k = [] \<and> contribution recs k = 0)
       \<or> listed recs k = [contribution recs k]"
proof (cases "k \<in> rec_product_id ` set recs")
  case True
  then obtain x where x: "x \<in> set recs" "k = rec_product_id x" by blast
  with assms have "listed recs k = [score x]" "contribution recs k = score x"
    by (simp_all add: listed_single contribution_single)
  then show ?thesis by simp
next
  case False
  then show ?thesis by (simp add: listed_absent contribution_absent)
qed

lemma distinct_take_sorted:
  assumes "distinct (map g xs)"
  shows "distinct (map g (take n (sorted_reverse f xs)))"
proof -
  have "mset (map g (sorted_reverse f xs)) = mset (map g xs)"
    by (simp add: sorted_reverse_mset)
  with assms have "distinct (map g (sorted_reverse f xs))"
    using mset_eq_imp_distinct_iff by blast
  then have "distinct (take n (map g (sorted_reverse f xs)))"
    by (rule distinct_take)
  then show ?thesis by (simp add: take_map)
qed

lemma collaborative_ids:
  "map rec_product_id (collaborative_filtering_strategy c pd)
     = map product_id (take 10 (sorted_reverse (\<lambda>p. get_or (relevance_score p) 0)
                                  (available_products pd)))"
  by (simp add: collaborative_unfold collaborative_rec_def o_def)

lemma popularity_ids:
  "map rec_product_id (popularity_based_strategy fmt c pd)
     = map product_id (take 10 (sorted_reverse (\<lambda>p. get_or (product_rating p) 0)
                                  (available_products pd)))"
  by (simp add: popularity_based_unfold popularity_rec_def o_def)

lemma distinct_collaborative:
  "distinct (map product_id (available_products pd))
     \<Longrightarrow> distinct (map rec_product_id (collaborative_filtering_strategy c pd))"
  unfolding collaborative_ids by (rule distinct_take_sorted)

lemma distinct_popularity:
  "distinct (map product_id (available_products pd))
     \<Longrightarrow> distinct (map rec_product_id (popularity_based_strategy fmt c pd))"
  unfolding popularity_ids by (rule distinct_take_sorted)

lemma distinct_content:
  assumes "distinct (map product_id (available_products pd))"
  shows "distinct (map rec_product_id (content_based_strategy c pd))"
proof -
  have "map rec_product_id (map (content_rec c) (available_products pd))
          = map product_id (available_products pd)"
    by (simp add: content_rec_def o_def)
  with assms have "distinct (map rec_product_id (map (content_rec c) (available_products pd)))"
    by (simp only:)
  then show ?thesis
    unfolding content_based_unfold by (rule distinct_take_sorted)
qed

subsection \<open>The merged dictionary of the hybrid engine\<close>

lemma merged_distinct: "distinct (map fst (merged_recs fmt c pd))"
  by (simp add: merged_recs_def Let_def distinct_fold_add_rec)

lemma merged_entry_ok: "entry_ok (merged_recs fmt c pd)"
proof -
  have "entry_ok []" by (simp add: entry_ok_def)
  then show ?thesis
    by (simp add: merged_recs_def Let_def entry_ok_fold)
qed

lemma merged_keys:
  "set (map fst (merged_recs fmt c pd))
     = rec_product_id ` (set (collaborative_filtering_strategy c pd)
                         \<union> set (content_based_strategy c pd)
                         \<union> set (popularity_based_strategy fmt c pd))"
  unfolding merged_recs_def Let_def keys_fold_add_rec by auto

lemma merged_score_of:
  "score_of (merged_recs fmt c pd) k
     = blend (fl 0.2)
         (blend (fl 0.4)
            (blend (fl 0.4) None (listed (collaborative_filtering_strategy c pd) k))
            (listed (content_based_strategy c pd) k))
         (listed (popularity_based_strategy fmt c pd) k)"
  unfolding merged_recs_def Let_def score_of_fold by (simp add: score_of_def)

lemma merged_lookup:
  assumes "r \<in> set (combined_recs fmt c pd)"
  shows "map_of (merged_recs fmt c pd) (rec_product_id r) = Some r"
proof -
  from assms obtain k where kr: "(k, r) \<in> set (merged_recs fmt c pd)"
    by (auto simp: combined_recs_def)
  with merged_distinct [of fmt c pd] have m: "map_of (merged_recs fmt c pd) k = Some r"
    by simp
  with merged_entry_ok [of fmt c pd] have "rec_product_id r = k"
    by (simp add: entry_ok_def)
  with m show ?thesis by simp
qed

lemma combined_ids:
  "map rec_product_id (combined_recs fmt c pd) = map fst (merged_recs fmt c pd)"
proof -
  have "\<forall>x \<in> set (merged_recs fmt c pd). rec_product_id (snd x) = fst x"
  proof
    fix x assume "x \<in> set (merged_recs fmt c pd)"
    then have "(fst x, snd x) \<in> set (merged_recs fmt c pd)" by simp
    with merged_distinct [of fmt c pd]
    have "map_of (merged_recs fmt c pd) (fst x) = Some (snd x)"
      by (simp only: map_of_eq_Some_iff)
    with merged_entry_ok [of fmt c pd] show "rec_product_id (snd x) = fst x"
      by (simp add: entry_ok_def)
  qed
  then show ?thesis by (simp add: combined_recs_def)
qed

lemma combined_distinct: "distinct (map rec_product_id (combined_recs fmt c pd))"
  by (simp only: combined_ids merged_distinct)

lemma combined_score:
  assumes "r \<in> set (combined_recs fmt c pd)"
  shows "Some (score r)
     = blend (fl 0.2)
         (blend (fl 0.4)
            (blend (fl 0.4) None
               (listed (collaborative_filtering_strategy c pd) (rec_product_id r)))
            (listed (content_based_strategy c pd) (rec_product_id r)))
         (listed (popularity_based_strategy fmt c pd) (rec_product_id r))"
proof -
  from assms have "map_of (merged_recs fmt c pd) (rec_product_id r) = Some r"
    by (rule merged_lookup)
  then have "score_of (merged_recs fmt c pd) (rec_product_id r) = Some (score r)"
    by (simp add: score_of_def)
  then show ?thesis by (simp only: merged_score_of)
qed

lemma fmul_zero: "fmul 0 w = 0"
  by (simp add: fmul_def fl_0)

lemma fadd_zero_left: "fadd 0 (fl y) = fl y"
  by (simp add: fadd_def fl_idem)

lemma fadd_zero_right: "fadd (fl y) 0 = fl y"
  by (simp add: fadd_def fl_idem)

lemma blend_zero_form:
  assumes c: "(lc = [] \<and> a = 0) \<or> lc = [a]"
    and t: "(lt = [] \<and> b = 0) \<or> lt = [b]"
    and p: "(lp = [] \<and> d = 0) \<or> lp = [d]"
    and some: "lc \<noteq> [] \<or> lt \<noteq> [] \<or> lp \<noteq> []"
  shows "blend w2 (blend w4 (blend w4 None lc) lt) lp
       = Some (fadd (fadd (fmul a w4) (fmul b w4)) (fmul d w2))"
proof -
  have z: "fadd 0 (fmul y w) = fmul y w" "fadd (fmul y w) 0 = fmul y w"
    "fadd (fadd x y) 0 = fadd x y" "fadd 0 0 = 0" for x y w
    by (simp_all add: fmul_def fadd_def fl_idem fl_0)
  from c t p some show ?thesis
    by (elim disjE conjE) (simp_all add: fmul_zero z)
qed

lemma combined_score_distinct:
  assumes d: "distinct (map product_id (available_products pd))"
    and r: "r \<in> set (combined_recs fmt c pd)"
  shows "score r
     = fadd (fadd (fmul (contribution (collaborative_filtering_strategy c pd)
                           (rec_product_id r)) (fl 0.4))
                  (fmul (contribution (content_based_strategy c pd)
                           (rec_product_id r)) (fl 0.4)))
            (fmul (contribution (popularity_based_strategy fmt c pd)
                     (rec_product_id r)) (fl 0.2))"
proof -
  let ?k = "rec_product_id r"
  let ?lc = "listed (collaborative_filtering_strategy c pd) ?k"
  let ?lt = "listed (content_based_strategy c pd) ?k"
  let ?lp = "listed (popularity_based_strategy fmt c pd) ?k"
  have k: "?k \<in> rec_product_id ` (set (collaborative_filtering_strategy c pd)
                         \<union> set (content_based_strategy c pd)
                         \<union> set (popularity_based_strategy fmt c pd))"
  proof -
    from r have "?k \<in> set (map rec_product_id (combined_recs fmt c pd))" by simp
    then show ?thesis by (simp only: combined_ids merged_keys)
  qed
  have some: "?lc \<noteq> [] \<or> ?lt \<noteq> [] \<or> ?lp \<noteq> []"
  proof (rule ccontr)
    assume "\<not> ?thesis"
    then have "?lc = []" "?lt = []" "?lp = []" by simp_all
    then have "?k \<notin> rec_product_id ` set (collaborative_filtering_strategy c pd)"
      "?k \<notin> rec_product_id ` set (content_based_strategy c pd)"
      "?k \<notin> rec_product_id ` set (popularity_based_strategy fmt c pd)"
      by (auto simp: listed_def filter_empty_conv)
    with k show False by blast
  qed
  have "blend (fl 0.2) (blend (fl 0.4) (blend (fl 0.4) None ?lc) ?lt) ?lp
      = Some (fadd (fadd (fmul (contribution (collaborative_filtering_strategy c pd) ?k) (fl 0.4))
                         (fmul (contribution (content_based_strategy c pd) ?k) (fl 0.4)))
                   (fmul (contribution (popularity_based_strategy fmt c pd) ?k) (fl 0.2)))"
    using listed_cases [OF distinct_collaborative [OF d]]
      listed_cases [OF distinct_content [OF d]]
      listed_cases [OF distinct_popularity [OF d]] some
    by (rule blend_zero_form)
  with combined_score [OF r] show ?thesis by simp
qed

lemma collaborative_reason:
  "rc \<in> set (collaborative_filtering_strategy c pd) \<Longrightarrow>
     reason rc = ''Recommended based on preferences of similar ''
                 @ get_or (customer_segment c) [] @ '' customers''"
  by (auto simp: collaborative_unfold collaborative_rec_def)

lemma combined_reason:
  assumes r: "r \<in> set (combined_recs fmt c pd)"
    and k: "rec_product_id r \<in> rec_product_id ` set (collaborative_filtering_strategy c pd)"
  shows "reason r
     = ''Recommended based on preferences of similar ''
       @ get_or (customer_segment c) [] @ '' customers''
       @ concat (map (\<lambda>x. '' and '' @ reason x)
                   (filter (\<lambda>x. rec_product_id x = rec_product_id r)
                      (content_based_strategy c pd)))"
proof -
  let ?R = "''Recommended based on preferences of similar ''
            @ get_or (customer_segment c) [] @ '' customers''"
  let ?k = "rec_product_id r"
  let ?all1 = "foldl (add_rec (fl 0.4) False) [] (collaborative_filtering_strategy c pd)"
  let ?all2 = "foldl (add_rec (fl 0.4) True) ?all1 (content_based_strategy c pd)"
  let ?all3 = "foldl (add_rec (fl 0.2) False) ?all2 (popularity_based_strategy fmt c pd)"
  have all3: "merged_recs fmt c pd = ?all3"
    by (simp add: merged_recs_def Let_def)
  from k have "?k \<in> set (map fst ?all1)"
    unfolding keys_fold_add_rec by simp
  then obtain r1 where r1: "map_of ?all1 ?k = Some r1"
    by (metis domD dom_map_of_conv_image_fst set_map)
  have "\<forall>k r. map_of ?all1 k = Some r \<longrightarrow> reason r = ?R"
    by (rule reason_const_fold) (simp_all add: collaborative_reason)
  with r1 have reason1: "reason r1 = ?R" by blast
  from reason_append_fold [OF r1, where w = "fl 0.4" and recs = "content_based_strategy c pd"]
  obtain r2 where r2: "map_of ?all2 ?k = Some r2"
    "reason r2 = reason r1 @ concat (map (\<lambda>x. '' and '' @ reason x)
                   (filter (\<lambda>x. rec_product_id x = ?k) (content_based_strategy c pd)))"
    by blast
  from reason_keep_fold [OF r2(1), where w = "fl 0.2" and recs = "popularity_based_strategy fmt c pd"]
  obtain r3 where r3: "map_of ?all3 ?k = Some r3" "reason r3 = reason r2"
    by blast
  from r have "map_of ?all3 ?k = Some r"
    unfolding all3 [symmetric] by (rule merged_lookup)
  with r3 have "r3 = r" by simp
  with r3 r2 reason1 show ?thesis by simp
qed

subsection \<open>The hybrid engine\<close>

lemma hybrid_sorted:
  "sorted_wrt (\<lambda>a b. score a \<ge> score b) (hybrid_strategy fmt c pd)"
  unfolding hybrid_strategy_def
  by (rule sorted_wrt_take_desc) (rule sorted_reverse_sorted)

lemma hybrid_subset: "set (hybrid_strategy fmt c pd) \<subseteq> set (combined_recs fmt c pd)"
proof
  fix r assume "r \<in> set (hybrid_strategy fmt c pd)"
  then have "r \<in> set (sorted_reverse score (combined_recs fmt c pd))"
    unfolding hybrid_strategy_def by (rule in_set_takeD)
  then show "r \<in> set (combined_recs fmt c pd)"
    by (simp add: sorted_reverse_set)
qed

lemma combined_reason_distinct:
  assumes d: "distinct (map product_id (available_products pd))"
    and r: "r \<in> set (combined_recs fmt c pd)"
    and rc: "rc \<in> set (collaborative_filtering_strategy c pd)"
    and rt: "rt \<in> set (content_based_strategy c pd)"
    and eq: "rec_product_id rc = rec_product_id r" "rec_product_id rt = rec_product_id r"
  shows "reason r = reason rc @ '' and '' @ reason rt"
proof -
  from rc have "rec_product_id rc \<in> rec_product_id ` set (collaborative_filtering_strategy c pd)"
    by (rule imageI)
  then have "rec_product_id r \<in> rec_product_id ` set (collaborative_filtering_strategy c pd)"
    by (simp only: eq(1))
  with r have "reason r
     = ''Recommended based on preferences of similar ''
       @ get_or (customer_segment c) [] @ '' customers''
       @ concat (map (\<lambda>x. '' and '' @ reason x)
                   (filter (\<lambda>x. rec_product_id x = rec_product_id r)
                      (content_based_strategy c pd)))"
    by (rule combined_reason)
  moreover have "filter (\<lambda>x. rec_product_id x = rec_product_id rt) (content_based_strategy c pd) = [rt]"
    using distinct_content [OF d] rt by (rule filter_single)
  moreover have "reason rc = ''Recommended based on preferences of similar ''
                 @ get_or (customer_segment c) [] @ '' customers''"
    using rc by (rule collaborative_reason)
  ultimately show ?thesis using eq(2) by simp
qed

text \<open>
  Claim C3. The hybrid engine returns the first 10, by final score descending, of the
  merge of the three sub-engines' outputs (each already cut to its top 10). The merge has
  one entry per product id of the union of the three outputs. The final score of an entry
  is what the three merging passes leave under its product id: the collaborative scores listed
  under the id times 0.4, then the content scores times 0.4, then the popularity scores
  times 0.2, added in that order in floating-point arithmetic. When the candidates have
  distinct product ids, that is 0.4 times the collaborative score plus 0.4 times the
  content score plus 0.2 times the popularity score, a sub-engine that does not list the
  product contributing 0, and the reason of a product listed by both the collaborative and
  the content engine is the collaborative reason, then " and ", then the content reason.
\<close>

theorem hybrid_strategy_spec:
  "(\<exists>S. mset S = mset (combined_recs fmt c pd)
        \<and> sorted_wrt (\<lambda>a b. score a \<ge> score b) S
        \<and> hybrid_strategy fmt c pd = take 10 S)
   \<and> length (hybrid_strategy fmt c pd) \<le> 10
   \<and> sorted_wrt (\<lambda>a b. score a \<ge> score b) (hybrid_strategy fmt c pd)
   \<and> distinct (map rec_product_id (combined_recs fmt c pd))
   \<and> set (map rec_product_id (combined_recs fmt c pd))
       = rec_product_id ` (set (collaborative_filtering_strategy c pd)
                           \<union> set (content_based_strategy c pd)
                           \<union> set (popularity_based_strategy fmt c pd))
   \<and> (\<forall>r \<in> set (combined_recs fmt c pd).
         Some (score r)
           = blend (fl 0.2)
               (blend (fl 0.4)
                  (blend (fl 0.4) None
                     (listed (collaborative_filtering_strategy c pd) (rec_product_id r)))
                  (listed (content_based_strategy c pd) (rec_product_id r)))
               (listed (popularity_based_strategy fmt c pd) (rec_product_id r)))
   \<and> (\<forall>recs k. k \<notin> rec_product_id ` set recs \<longrightarrow> contribution recs k = 0)
   \<and> (distinct (map product_id (available_products pd)) \<longrightarrow>
        (\<forall>x \<in> set (collaborative_filtering_strategy c pd).
           contribution (collaborative_filtering_strategy c pd) (rec_product_id x) = score x)
        \<and> (\<forall>x \<in> set (content_based_strategy c pd).
             contribution (content_based_strategy c pd) (rec_product_id x) = score x)
        \<and> (\<forall>x \<in> set (popularity_based_strategy fmt c pd).
             contribution (popularity_based_strategy fmt c pd) (rec_product_id x) = score x)
        \<and> (\<forall>r \<in> set (combined_recs fmt c pd).
             score r
               = fadd (fadd (fmul (contribution (collaborative_filtering_strategy c pd)
                                     (rec_product_id r)) (fl 0.4))
                            (fmul (contribution (content_based_strategy c pd)
                                     (rec_product_id r)) (fl 0.4)))
                      (fmul (contribution (popularity_based_strategy fmt c pd)
                               (rec_product_id r)) (fl 0.2)))
        \<and> (\<forall>r \<in> set (combined_recs fmt c pd).
             \<forall>rc \<in> set (collaborative_filtering_strategy c pd).
             \<forall>rt \<in> set (content_based_strategy c pd).
               rec_product_id rc = rec_product_id r \<and> rec_product_id rt = rec_product_id r
               \<longrightarrow> reason r = reason rc @ '' and '' @ reason rt))"
proof (intro conjI impI ballI allI)
  let ?S = "sorted_reverse score (combined_recs fmt c pd)"
  have "mset ?S = mset (combined_recs fmt c pd)" by (rule sorted_reverse_mset)
  moreover have "sorted_wrt (\<lambda>a b. score a \<ge> score b) ?S" by (rule sorted_reverse_sorted)
  moreover have "hybrid_strategy fmt c pd = take 10 ?S" by (simp add: hybrid_strategy_def)
  ultimately show "\<exists>S. mset S = mset (combined_recs fmt c pd)
        \<and> sorted_wrt (\<lambda>a b. score a \<ge> score b) S
        \<and> hybrid_strategy fmt c pd = take 10 S"
    by blast
next
  show "length (hybrid_strategy fmt c pd) \<le> 10"
    by (simp add: hybrid_strategy_def)
next
  show "sorted_wrt (\<lambda>a b. score a \<ge> score b) (hybrid_strategy fmt c pd)"
    by (rule hybrid_sorted)
next
  show "distinct (map rec_product_id (combined_recs fmt c pd))"
    by (rule combined_distinct)
next
  show "set (map rec_product_id (combined_recs fmt c pd))
       = rec_product_id ` (set (collaborative_filtering_strategy c pd)
                           \<union> set (content_based_strategy c pd)
                           \<union> set (popularity_based_strategy fmt c pd))"
    by (simp only: combined_ids merged_keys)
next
  fix r assume "r \<in> set (combined_recs fmt c pd)"
  then show "Some (score r)
           = blend (fl 0.2)
               (blend (fl 0.4)
                  (blend (fl 0.4) None
                     (listed (collaborative_filtering_strategy c pd) (rec_product_id r)))
                  (listed (content_based_strategy c pd) (rec_product_id r)))
               (listed (popularity_based_strategy fmt c pd) (rec_product_id r))"
    by (rule combined_score)
next
  fix recs :: "recommendation list" and k
  assume "k \<notin> rec_product_id ` set recs"
  then show "contribution recs k = 0" by (rule contribution_absent)
next
  fix x
  assume "distinct (map product_id (available_products pd))"
    "x \<in> set (collaborative_filtering_strategy c pd)"
  then show "contribution (collaborative_filtering_strategy c pd) (rec_product_id x) = score x"
    by (intro contribution_single distinct_collaborative)
next
  fix x
  assume "distinct (map product_id (available_products pd))"
    "x \<in> set (content_based_strategy c pd)"
  then show "contribution (content_based_strategy c pd) (rec_product_id x) = score x"
    by (intro contribution_single distinct_content)
next
  fix x
  assume "distinct (map product_id (available_products pd))"
    "x \<in> set (popularity_based_strategy fmt c pd)"
  then show "contribution (popularity_based_strategy fmt c pd) (rec_product_id x) = score x"
    by (intro contribution_single distinct_popularity)
next
  fix r
  assume "distinct (map product_id (available_products pd))"
    "r \<in> set (combined_recs fmt c pd)"
  then show "score r
               = fadd (fadd (fmul (contribution (collaborative_filtering_strategy c pd)
                                     (rec_product_id r)) (fl 0.4))
                            (fmul (contribution (content_based_strategy c pd)
                                     (rec_product_id r)) (fl 0.4)))
                      (fmul (contribution (popularity_based_strategy fmt c pd)
                               (rec_product_id r)) (fl 0.2))"
    by (rule combined_score_distinct)
next
  fix r rc rt
  assume "distinct (map product_id (available_products pd))"
    "r \<in> set (combined_recs fmt c pd)"
    "rc \<in> set (collaborative_filtering_strategy c pd)"
    "rt \<in> set (content_based_strategy c pd)"
    "rec_product_id rc = rec_product_id r \<and> rec_product_id rt = rec_product_id r"
  then show "reason r = reason rc @ '' and '' @ reason rt"
    by (intro combined_reason_distinct) simp_all
qed

lemmas hybrid_eval =
  hybrid_strategy_def combined_recs_def merged_recs_def Let_def
  collaborative_unfold content_based_unfold popularity_based_unfold
  available_products_def get_or_def sorted_reverse_def
  collaborative_rec_def content_rec_def popularity_rec_def content_score_def
  add_rec_def blank_product_def blank_customer_def
  fadd_def fmul_def fdiv_def fl_values

theorem hybrid_strategy_spec_witness:
  "distinct (map product_id (available_products
        \<lparr>products = Some
           [blank_product\<lparr>product_id := Some ''P1'', category := Some ''Books'',
                          product_rating := Some 4.5, relevance_score := Some (fl 0.8)\<rparr>,
            blank_product\<lparr>product_id := Some ''P2'', category := Some ''Toys'',
                          product_rating := Some 3, relevance_score := Some (fl 0.6)\<rparr>]\<rparr>))
   \<and> map rec_product_id (hybrid_strategy (\<lambda>_. ''r'')
        (blank_customer\<lparr>browsing_history := Some [''Books'']\<rparr>)
        \<lparr>products = Some
           [blank_product\<lparr>product_id := Some ''P1'', category := Some ''Books'',
                          product_rating := Some 4.5, relevance_score := Some (fl 0.8)\<rparr>,
            blank_product\<lparr>product_id := Some ''P2'', category := Some ''Toys'',
                          product_rating := Some 3, relevance_score := Some (fl 0.6)\<rparr>]\<rparr>)
       = [Some ''P1'', Some ''P2'']
   \<and> map score (hybrid_strategy (\<lambda>_. ''r'')
        (blank_customer\<lparr>browsing_history := Some [''Books'']\<rparr>)
        \<lparr>products = Some
           [blank_product\<lparr>product_id := Some ''P1'', category := Some ''Books'',
                          product_rating := Some 4.5, relevance_score := Some (fl 0.8)\<rparr>,
            blank_product\<lparr>product_id := Some ''P2'', category := Some ''Toys'',
                          product_rating := Some 3, relevance_score := Some (fl 0.6)\<rparr>]\<rparr>)
       = [fadd (fadd (fmul (fl 0.8) (fl 0.4)) (fmul (fadd (fl 0.8) (fl 0.1)) (fl 0.4)))
               (fmul (fdiv 4.5 5) (fl 0.2)),
          fadd (fadd (fmul (fl 0.6) (fl 0.4)) (fmul (fl 0.6) (fl 0.4)))
               (fmul (fdiv 3 5) (fl 0.2))]
   \<and> map reason (hybrid_strategy (\<lambda>_. ''r'')
        (blank_customer\<lparr>browsing_history := Some [''Books'']\<rparr>)
        \<lparr>products = Some
           [blank_product\<lparr>product_id := Some ''P1'', category := Some ''Books'',
                          product_rating := Some 4.5, relevance_score := Some (fl 0.8)\<rparr>,
            blank_product\<lparr>product_id := Some ''P2'', category := Some ''Toys'',
                          product_rating := Some 3, relevance_score := Some (fl 0.6)\<rparr>]\<rparr>)
       = [''Recommended based on preferences of similar  customers''
            @ '' and '' @ ''Recommended based on your interest in Books products'',
          ''Recommended based on preferences of similar  customers''
            @ '' and '' @ ''Recommended based on your interest in Toys products'']"
proof -
  from hybrid_strategy_spec
    [where fmt = "\<lambda>_. ''r''" and c = "blank_customer\<lparr>browsing_history := Some [''Books'']\<rparr>"
       and pd = "\<lparr>products = Some
           [blank_product\<lparr>product_id := Some ''P1'', category := Some ''Books'',
                          product_rating := Some 4.5, relevance_score := Some (fl 0.8)\<rparr>,
            blank_product\<lparr>product_id := Some ''P2'', category := Some ''Toys'',
                          product_rating := Some 3, relevance_score := Some (fl 0.6)\<rparr>]\<rparr>"]
  have "length (hybrid_strategy (\<lambda>_. ''r'')
        (blank_customer\<lparr>browsing_history := Some [''Books'']\<rparr>)
        \<lparr>products = Some
           [blank_product\<lparr>product_id := Some ''P1'', category := Some ''Books'',
                          product_rating := Some 4.5, relevance_score := Some (fl 0.8)\<rparr>,
            blank_product\<lparr>product_id := Some ''P2'', category := Some ''Toys'',
                          product_rating := Some 3, relevance_score := Some (fl 0.6)\<rparr>]\<rparr>) \<le> 10"
    by blast
  then show ?thesis by (simp add: hybrid_eval)
qed

text \<open>
  The ranking follows the rounded blend: for P1 of relevance 0.6 and rating 3.0 and P2 of
  relevance 0.5 and rating 5.0 the passes give \<^verbatim>\<open>0.6\<close> and
  \<^verbatim>\<open>0.6000000000000001\<close>, so P2 comes first.
\<close>

lemma hybrid_rounding_example:
  "map rec_product_id (hybrid_strategy (\<lambda>_. ''r'') blank_customer
        \<lparr>products = Some
           [blank_product\<lparr>product_id := Some ''P1'', product_rating := Some 3,
                          relevance_score := Some (fl 0.6)\<rparr>,
            blank_product\<lparr>product_id := Some ''P2'', product_rating := Some 5,
                          relevance_score := Some 0.5\<rparr>]\<rparr>)
     = [Some ''P2'', Some ''P1'']"
  by (simp add: hybrid_eval)

subsection \<open>Ranges of the engines' scores\<close>

lemma collaborative_score_source:
  assumes "r \<in> set (collaborative_filtering_strategy c pd)"
  shows "\<exists>p \<in> set (available_products pd). score r = get_or (relevance_score p) 0"
proof -
  from assms obtain p where
    "p \<in> set (take 10 (sorted_reverse (\<lambda>p. get_or (relevance_score p) 0) (available_products pd)))"
    "r = collaborative_rec c p"
    unfolding collaborative_unfold by auto
  then have "p \<in> set (available_products pd)" "score r = get_or (relevance_score p) 0"
    by (auto dest: in_set_takeD simp: sorted_reverse_set collaborative_rec_def)
  then show ?thesis by blast
qed

lemma popularity_score_source:
  assumes "r \<in> set (popularity_based_strategy fmt c pd)"
  shows "\<exists>p \<in> set (available_products pd). score r = fdiv (get_or (product_rating p) 0) 5"
proof -
  from assms obtain p where
    "p \<in> set (take 10 (sorted_reverse (\<lambda>p. get_or (product_rating p) 0) (available_products pd)))"
    "r = popularity_rec fmt p"
    unfolding popularity_based_unfold by auto
  then have "p \<in> set (available_products pd)" "score r = fdiv (get_or (product_rating p) 0) 5"
    by (auto dest: in_set_takeD simp: sorted_reverse_set popularity_rec_def)
  then show ?thesis by blast
qed

lemma content_score_source:
  assumes "r \<in> set (content_based_strategy c pd)"
  shows "\<exists>p \<in> set (available_products pd). score r = content_score c p"
proof -
  from assms have "r \<in> set (sorted_reverse score (map (content_rec c) (available_products pd)))"
    unfolding content_based_unfold by (rule in_set_takeD)
  then obtain p where "p \<in> set (available_products pd)" "r = content_rec c p"
    by (auto simp: sorted_reverse_set)
  then show ?thesis by (auto simp: content_rec_def)
qed

lemma fadd_mono: "x \<le> x' \<Longrightarrow> y \<le> y' \<Longrightarrow> fadd x y \<le> fadd x' y'"
  by (simp add: fadd_def fl_mono)

lemma fadd_nonneg: "0 \<le> x \<Longrightarrow> 0 \<le> y \<Longrightarrow> 0 \<le> fadd x y"
  by (simp add: fadd_def fl_nonneg)

lemma fmul_mono: "x \<le> x' \<Longrightarrow> 0 \<le> w \<Longrightarrow> fmul x w \<le> fmul x' w"
  by (simp add: fmul_def fl_mono mult_right_mono)

lemma fmul_nonneg: "0 \<le> x \<Longrightarrow> 0 \<le> w \<Longrightarrow> 0 \<le> fmul x w"
  by (simp add: fmul_def fl_nonneg)

lemma fdiv_range:
  assumes "0 \<le> x" "x \<le> 5"
  shows "0 \<le> fdiv x 5 \<and> fdiv x 5 \<le> 1"
proof -
  from assms have "0 \<le> x / 5" "x / 5 \<le> 1" by simp_all
  then have "0 \<le> fl (x / 5)" "fl (x / 5) \<le> fl 1"
    by (simp_all add: fl_nonneg fl_mono)
  then show ?thesis by (simp add: fdiv_def fl_values)
qed

lemma literal_signs: "0 \<le> fl 0.1" "0 \<le> fl 0.15" "0 \<le> fl 0.4" "0 \<le> fl 0.2"
  by (simp_all add: fl_nonneg)

lemma content_score_range:
  assumes "0 \<le> get_or (relevance_score p) 0" "get_or (relevance_score p) 0 \<le> 1"
  shows "0 \<le> content_score c p \<and> content_score c p \<le> 1.25"
proof -
  let ?s = "get_or (relevance_score p) 0"
  have a1: "0 \<le> fadd ?s (fl 0.1)"
    by (intro fadd_nonneg assms literal_signs)
  have a2: "fadd ?s (fl 0.1) \<le> fadd 1 (fl 0.1)"
    by (intro fadd_mono assms order_refl)
  have b1: "0 \<le> fadd ?s (fl 0.15)"
    by (intro fadd_nonneg assms literal_signs)
  have b2: "fadd ?s (fl 0.15) \<le> fadd 1 (fl 0.15)"
    by (intro fadd_mono assms order_refl)
  have c1: "0 \<le> fadd (fadd ?s (fl 0.1)) (fl 0.15)"
    by (intro fadd_nonneg a1 literal_signs)
  have c2: "fadd (fadd ?s (fl 0.1)) (fl 0.15) \<le> fadd (fadd 1 (fl 0.1)) (fl 0.15)"
    by (intro fadd_mono a2 order_refl)
  have v: "fadd 1 (fl 0.1) \<le> 1.25" "fadd 1 (fl 0.15) \<le> 1.25"
    "fadd (fadd 1 (fl 0.1)) (fl 0.15) = 1.25"
    by (simp_all add: fadd_def fl_values)
  from a2 b2 c2 v have u: "fadd ?s (fl 0.1) \<le> 1.25" "fadd ?s (fl 0.15) \<le> 1.25"
    "fadd (fadd ?s (fl 0.1)) (fl 0.15) \<le> 1.25"
    by linarith+
  from assms a1 b1 c1 u show ?thesis
    unfolding content_score_def Let_def by (simp split: if_splits)
qed

lemma contribution_range:
  assumes d: "distinct (map rec_product_id recs)"
    and b: "\<forall>x \<in> set recs. 0 \<le> score x \<and> score x \<le> B"
    and B: "0 \<le> B"
  shows "0 \<le> contribution recs k \<and> contribution recs k \<le> B"
proof (cases "k \<in> rec_product_id ` set recs")
  case True
  then obtain x where x: "x \<in> set recs" "k = rec_product_id x" by blast
  with d have "contribution recs k = score x"
    by (simp add: contribution_single)
  with b x show ?thesis by simp
next
  case False
  then have "contribution recs k = 0" by (rule contribution_absent)
  with B show ?thesis by simp
qed

lemma blend_range:
  assumes "0 \<le> a" "a \<le> 1" "0 \<le> b" "b \<le> 1.25" "0 \<le> d" "d \<le> 1"
  shows "0 \<le> fadd (fadd (fmul a (fl 0.4)) (fmul b (fl 0.4))) (fmul d (fl 0.2))
       \<and> fadd (fadd (fmul a (fl 0.4)) (fmul b (fl 0.4))) (fmul d (fl 0.2)) \<le> fl 1.1"
proof -
  have "fadd (fadd (fmul a (fl 0.4)) (fmul b (fl 0.4))) (fmul d (fl 0.2))
      \<le> fadd (fadd (fmul 1 (fl 0.4)) (fmul 1.25 (fl 0.4))) (fmul 1 (fl 0.2))"
    using assms by (intro fadd_mono fmul_mono literal_signs)
  also have "\<dots> = fl 1.1"
    by (simp add: fadd_def fmul_def fl_values)
  finally have "fadd (fadd (fmul a (fl 0.4)) (fmul b (fl 0.4))) (fmul d (fl 0.2)) \<le> fl 1.1" .
  moreover have "0 \<le> fadd (fadd (fmul a (fl 0.4)) (fmul b (fl 0.4))) (fmul d (fl 0.2))"
    using assms by (intro fadd_nonneg fmul_nonneg literal_signs)
  ultimately show ?thesis by simp
qed

text \<open>
  Claim C1, as amended. No engine clamps its output. For candidates whose relevance score
  lies between 0 and 1 and whose rating lies between 0 and 5, every score of the
  collaborative and of the popularity-based engine lies between 0 and 1, every score of
  the content-based engine lies between 0 and 1.25, and, when the candidates have distinct
  product ids, every score of the hybrid engine lies between 0 and 1.1 (the double of that
  literal, which the blend reaches).
\<close>

theorem engine_score_ranges:
  assumes inp: "\<forall>p \<in> set (available_products pd).
                 0 \<le> get_or (relevance_score p) 0 \<and> get_or (relevance_score p) 0 \<le> 1
                 \<and> 0 \<le> get_or (product_rating p) 0 \<and> get_or (product_rating p) 0 \<le> 5"
  shows "(\<forall>r \<in> set (collaborative_filtering_strategy c pd). 0 \<le> score r \<and> score r \<le> 1)
       \<and> (\<forall>r \<in> set (popularity_based_strategy fmt c pd). 0 \<le> score r \<and> score r \<le> 1)
       \<and> (\<forall>r \<in> set (content_based_strategy c pd). 0 \<le> score r \<and> score r \<le> 1.25)
       \<and> (distinct (map product_id (available_products pd)) \<longrightarrow>
            (\<forall>r \<in> set (hybrid_strategy fmt c pd). 0 \<le> score r \<and> score r \<le> fl 1.1))"
proof -
  have collab: "\<forall>r \<in> set (collaborative_filtering_strategy c pd). 0 \<le> score r \<and> score r \<le> 1"
  proof
    fix r assume "r \<in> set (collaborative_filtering_strategy c pd)"
    then obtain p where "p \<in> set (available_products pd)"
      "score r = get_or (relevance_score p) 0"
      using collaborative_score_source by blast
    with inp show "0 \<le> score r \<and> score r \<le> 1" by simp
  qed
  have pop: "\<forall>r \<in> set (popularity_based_strategy fmt c pd). 0 \<le> score r \<and> score r \<le> 1"
  proof
    fix r assume "r \<in> set (popularity_based_strategy fmt c pd)"
    then obtain p where p: "p \<in> set (available_products pd)"
      "score r = fdiv (get_or (product_rating p) 0) 5"
      using popularity_score_source by blast
    with inp have "0 \<le> get_or (product_rating p) 0" "get_or (product_rating p) 0 \<le> 5"
      by simp_all
    then have "0 \<le> fdiv (get_or (product_rating p) 0) 5 \<and> fdiv (get_or (product_rating p) 0) 5 \<le> 1"
      by (rule fdiv_range)
    with p(2) show "0 \<le> score r \<and> score r \<le> 1" by simp
  qed
  have content: "\<forall>r \<in> set (content_based_strategy c pd). 0 \<le> score r \<and> score r \<le> 1.25"
  proof
    fix r assume "r \<in> set (content_based_strategy c pd)"
    then obtain p where p: "p \<in> set (available_products pd)" "score r = content_score c p"
      using content_score_source by blast
    with inp have "0 \<le> get_or (relevance_score p) 0" "get_or (relevance_score p) 0 \<le> 1"
      by simp_all
    then have "0 \<le> content_score c p \<and> content_score c p \<le> 1.25"
      by (rule content_score_range)
    with p(2) show "0 \<le> score r \<and> score r \<le> 1.25" by simp
  qed
  have hybrid: "\<forall>r \<in> set (hybrid_strategy fmt c pd). 0 \<le> score r \<and> score r \<le> fl 1.1"
    if d: "distinct (map product_id (available_products pd))"
  proof
    fix r assume "r \<in> set (hybrid_strategy fmt c pd)"
    with hybrid_subset have r: "r \<in> set (combined_recs fmt c pd)" by blast
    let ?k = "rec_product_id r"
    let ?a = "contribution (collaborative_filtering_strategy c pd) ?k"
    let ?b = "contribution (content_based_strategy c pd) ?k"
    let ?p = "contribution (popularity_based_strategy fmt c pd) ?k"
    have a: "0 \<le> ?a \<and> ?a \<le> 1"
      using distinct_collaborative [OF d] collab by (rule contribution_range) simp
    have b: "0 \<le> ?b \<and> ?b \<le> 1.25"
      using distinct_content [OF d] content by (rule contribution_range) simp
    have p: "0 \<le> ?p \<and> ?p \<le> 1"
      using distinct_popularity [OF d] pop by (rule contribution_range) simp
    have "score r = fadd (fadd (fmul ?a (fl 0.4)) (fmul ?b (fl 0.4))) (fmul ?p (fl 0.2))"
      using d r by (rule combined_score_distinct)
    moreover have "0 \<le> fadd (fadd (fmul ?a (fl 0.4)) (fmul ?b (fl 0.4))) (fmul ?p (fl 0.2))
       \<and> fadd (fadd (fmul ?a (fl 0.4)) (fmul ?b (fl 0.4))) (fmul ?p (fl 0.2)) \<le> fl 1.1"
      using a b p by (intro blend_range) simp_all
    ultimately show "0 \<le> score r \<and> score r \<le> fl 1.1" by simp
  qed
  from collab pop content hybrid show ?thesis by blast
qed

theorem engine_scores_unit_interval_counterexample:
  "map score (content_based_strategy
       (blank_customer\<lparr>browsing_history := Some [''Books''],
                        purchase_history := Some [''Books'']\<rparr>)
       \<lparr>products = Some [blank_product\<lparr>product_id := Some ''P9'', category := Some ''Books'',
                                         product_rating := Some 5, relevance_score := Some 1\<rparr>]\<rparr>)
     = [1.25]
   \<and> map score (hybrid_strategy (\<lambda>_. ''5.0'')
       (blank_customer\<lparr>browsing_history := Some [''Books''],
                        purchase_history := Some [''Books'']\<rparr>)
       \<lparr>products = Some [blank_product\<lparr>product_id := Some ''P9'', category := Some ''Books'',
                                         product_rating := Some 5, relevance_score := Some 1\<rparr>]\<rparr>)
     = [fl 1.1]
   \<and> \<not> ((1.25 :: real) \<le> 1) \<and> \<not> (fl 1.1 \<le> 1)"
  by (simp add: hybrid_eval)

theorem engine_score_ranges_witness:
  "(0::real) \<le> get_or (relevance_score (blank_product\<lparr>product_id := Some ''P1'',
        category := Some ''Books'', product_rating := Some 4.5, relevance_score := Some (fl 0.8)\<rparr>)) 0
   \<and> get_or (relevance_score (blank_product\<lparr>product_id := Some ''P1'',
        category := Some ''Books'', product_rating := Some 4.5, relevance_score := Some (fl 0.8)\<rparr>)) 0 \<le> (1::real)
   \<and> (0::real) \<le> get_or (product_rating (blank_product\<lparr>product_id := Some ''P1'',
        category := Some ''Books'', product_rating := Some 4.5, relevance_score := Some (fl 0.8)\<rparr>)) 0
   \<and> get_or (product_rating (blank_product\<lparr>product_id := Some ''P1'',
        category := Some ''Books'', product_rating := Some 4.5, relevance_score := Some (fl 0.8)\<rparr>)) 0 \<le> (5::real)
   \<and> distinct (map product_id (available_products
        \<lparr>products = Some [blank_product\<lparr>product_id := Some ''P1'', category := Some ''Books'',
                                          product_rating := Some 4.5, relevance_score := Some (fl 0.8)\<rparr>]\<rparr>))
   \<and> map score (content_based_strategy (blank_customer\<lparr>browsing_history := Some [''Books'']\<rparr>)
        \<lparr>products = Some [blank_product\<lparr>product_id := Some ''P1'', category := Some ''Books'',
                                          product_rating := Some 4.5, relevance_score := Some (fl 0.8)\<rparr>]\<rparr>)
       = [fl 0.9]
   \<and> map score (hybrid_strategy (\<lambda>_. ''4.5'') (blank_customer\<lparr>browsing_history := Some [''Books'']\<rparr>)
        \<lparr>products = Some [blank_product\<lparr>product_id := Some ''P1'', category := Some ''Books'',
                                          product_rating := Some 4.5, relevance_score := Some (fl 0.8)\<rparr>]\<rparr>)
       = [fadd (fadd (fmul (fl 0.8) (fl 0.4)) (fmul (fl 0.9) (fl 0.4))) (fmul (fl 0.9) (fl 0.2))]
   \<and> 0 \<le> fadd (fadd (fmul (fl 0.8) (fl 0.4)) (fmul (fl 0.9) (fl 0.4))) (fmul (fl 0.9) (fl 0.2))
   \<and> fadd (fadd (fmul (fl 0.8) (fl 0.4)) (fmul (fl 0.9) (fl 0.4))) (fmul (fl 0.9) (fl 0.2)) \<le> fl 1.1"
proof -
  have i: "\<forall>p \<in> set (available_products
        \<lparr>products = Some [blank_product\<lparr>product_id := Some ''P1'', category := Some ''Books'',
                                          product_rating := Some 4.5, relevance_score := Some (fl 0.8)\<rparr>]\<rparr>).
       0 \<le> get_or (relevance_score p) 0 \<and> get_or (relevance_score p) 0 \<le> 1
       \<and> 0 \<le> get_or (product_rating p) 0 \<and> get_or (product_rating p) 0 \<le> 5"
    by (simp add: available_products_def get_or_def blank_product_def fl_values)
  have d: "distinct (map product_id (available_products
        \<lparr>products = Some [blank_product\<lparr>product_id := Some ''P1'', category := Some ''Books'',
                                          product_rating := Some 4.5, relevance_score := Some (fl 0.8)\<rparr>]\<rparr>))"
    by (simp add: available_products_def get_or_def)
  from engine_score_ranges [OF i, of "blank_customer\<lparr>browsing_history := Some [''Books'']\<rparr>" "\<lambda>_. ''4.5''"] d
  have b: "\<forall>r \<in> set (hybrid_strategy (\<lambda>_. ''4.5'') (blank_customer\<lparr>browsing_history := Some [''Books'']\<rparr>)
        \<lparr>products = Some [blank_product\<lparr>product_id := Some ''P1'', category := Some ''Books'',
                                          product_rating := Some 4.5, relevance_score := Some (fl 0.8)\<rparr>]\<rparr>).
        0 \<le> score r \<and> score r \<le> fl 1.1"
    by blast
  from b d show ?thesis
    by (simp add: hybrid_eval)
qed

section \<open>Properties of the agent memory\<close>

lemma recall_memory_cached:
  "memory st key = Some v \<Longrightarrow> recall_memory loads st key = (v, st)"
  by (simp add: recall_memory_def)

lemma recall_memory_caches:
  "recall_memory loads st key = (v, st') \<Longrightarrow> v \<noteq> JNull \<Longrightarrow> memory st' key = Some v"
  by (auto simp: recall_memory_def Let_def split: option.splits list.splits)

lemma recall_memory_idem:
  "recall_memory loads st key = (v, st') \<Longrightarrow> recall_memory loads st' key = (v, st')"
  by (auto simp: recall_memory_def Let_def split: option.splits list.splits)

lemma recall_memory_table:
  "recall_memory loads st key = (v, st') \<Longrightarrow>
     agent_memory st' = agent_memory st \<and> recommendations st' = recommendations st"
  by (auto simp: recall_memory_def Let_def split: option.splits list.splits)

lemma recall_memory_store:
  "recall_memory loads (store_memory st key s) key = (JStr s, store_memory st key s)"
  by (simp add: recall_memory_def store_memory_def)

lemma store_memory_fields:
  "memory (store_memory st key s) key = Some (JStr s)
   \<and> agent_memory (store_memory st key s)
       = agent_memory st @ [\<lparr>agent_type = agent_name, memory_key = key, memory_value = s\<rparr>]
   \<and> recommendations (store_memory st key s) = recommendations st"
  by (simp add: store_memory_def store_agent_memory_def)

section \<open>Properties of strategy selection and feedback\<close>

lemma default_strategy_refines:
  "(if get_or (customer_segment c) [] = ''New Visitor'' then ''popularity_based''
    else if get_or (customer_segment c) [] = ''Frequent Buyer'' then ''collaborative_filtering''
    else if length (get_or (browsing_history c) []) > length (get_or (purchase_history c) [])
         then ''content_based''
    else ''hybrid'') = spec_default_strategy c"
  by (cases "customer_segment c") (simp_all add: spec_default_strategy_def get_or_def)

lemma spec_default_strategy_nonempty: "spec_default_strategy c \<noteq> []"
  by (simp add: spec_default_strategy_def)

lemma select_unfold:
  "select_recommendation_strategy loads st c =
     (let key = strategy_key (get_or (customer_id c) ''None'');
          r = recall_memory loads st key
      in if truthy (fst r) then r
         else (JStr (spec_default_strategy c),
               store_memory (snd r) key (spec_default_strategy c)))"
  unfolding select_recommendation_strategy_def Let_def default_strategy_refines
  by (simp split: prod.splits)

lemma select_result_cached:
  assumes "select_recommendation_strategy loads st c = (s, st')"
  shows "memory st' (strategy_key (get_or (customer_id c) ''None'')) = Some s \<and> truthy s"
proof -
  let ?key = "strategy_key (get_or (customer_id c) ''None'')"
  obtain v st1 where r: "recall_memory loads st ?key = (v, st1)"
    by (cases "recall_memory loads st ?key")
  show ?thesis
  proof (cases "truthy v")
    case True
    then have "v \<noteq> JNull" by auto
    with r have "memory st1 ?key = Some v" by (rule recall_memory_caches)
    moreover from assms r True have "s = v" "st' = st1"
      by (simp_all add: select_unfold Let_def)
    ultimately show ?thesis using True by simp
  next
    case False
    with assms r have "s = JStr (spec_default_strategy c)"
      "st' = store_memory st1 ?key (spec_default_strategy c)"
      by (simp_all add: select_unfold Let_def)
    then show ?thesis
      by (simp add: store_memory_fields spec_default_strategy_nonempty)
  qed
qed

text \<open>
  Claim C6. Strategy selection is idempotent per customer. A call of the selector returns
  a strategy (a truthy value: the preference that was stored, or else the default of the
  selection rule, which is one of the four strategy names), and after the call that
  strategy is the preference held under the customer's key, so reading the preference
  gives it back. A second call for the same customer, with nothing in between, returns the
  preference the first call left there and changes nothing.
\<close>

theorem select_idempotent:
  "truthy (fst (select_recommendation_strategy loads st c))
   \<and> (fst (select_recommendation_strategy loads st c)
         = fst (recall_memory loads st (strategy_key (get_or (customer_id c) ''None'')))
       \<or> fst (select_recommendation_strategy loads st c) = JStr (spec_default_strategy c))
   \<and> spec_default_strategy c \<in> set strategies
   \<and> memory (snd (select_recommendation_strategy loads st c))
         (strategy_key (get_or (customer_id c) ''None''))
       = Some (fst (select_recommendation_strategy loads st c))
   \<and> recall_memory loads (snd (select_recommendation_strategy loads st c))
         (strategy_key (get_or (customer_id c) ''None''))
       = select_recommendation_strategy loads st c
   \<and> select_recommendation_strategy loads (snd (select_recommendation_strategy loads st c)) c
       = select_recommendation_strategy loads st c"
proof -
  let ?key = "strategy_key (get_or (customer_id c) ''None'')"
  obtain s st' where sel: "select_recommendation_strategy loads st c = (s, st')"
    by (cases "select_recommendation_strategy loads st c")
  then have m: "memory st' ?key = Some s" and t: "truthy s"
    using select_result_cached by blast+
  then have r: "recall_memory loads st' ?key = (s, st')"
    by (simp add: recall_memory_cached)
  with t have again: "select_recommendation_strategy loads st' c = (s, st')"
    by (simp add: select_unfold Let_def)
  have src: "s = fst (recall_memory loads st ?key) \<or> s = JStr (spec_default_strategy c)"
    using sel by (auto simp: select_unfold Let_def split: if_splits)
  have dflt: "spec_default_strategy c \<in> set strategies"
    by (simp add: spec_default_strategy_def strategies_def)
  from sel m t r again src dflt show ?thesis by simp
qed

theorem select_idempotent_witness:
  "select_recommendation_strategy (\<lambda>_. None) init_state
       (blank_customer\<lparr>customer_id := Some ''C1'', customer_segment := Some ''New Visitor''\<rparr>)
     = (JStr ''popularity_based'',
        \<lparr>memory = [''strategy_preference_C1'' \<mapsto> JStr ''popularity_based''],
         agent_memory = [\<lparr>agent_type = ''recommendation'',
                           memory_key = ''strategy_preference_C1'',
                           memory_value = ''popularity_based''\<rparr>],
         recommendations = []\<rparr>)
   \<and> select_recommendation_strategy (\<lambda>_. None)
       \<lparr>memory = [''strategy_preference_C1'' \<mapsto> JStr ''popularity_based''],
        agent_memory = [\<lparr>agent_type = ''recommendation'',
                          memory_key = ''strategy_preference_C1'',
                          memory_value = ''popularity_based''\<rparr>],
        recommendations = []\<rparr>
       (blank_customer\<lparr>customer_id := Some ''C1'', customer_segment := Some ''New Visitor''\<rparr>)
     = (JStr ''popularity_based'',
        \<lparr>memory = [''strategy_preference_C1'' \<mapsto> JStr ''popularity_based''],
         agent_memory = [\<lparr>agent_type = ''recommendation'',
                           memory_key = ''strategy_preference_C1'',
                           memory_value = ''popularity_based''\<rparr>],
         recommendations = []\<rparr>)"
proof -
  have e: "select_recommendation_strategy (\<lambda>_. None) init_state
       (blank_customer\<lparr>customer_id := Some ''C1'', customer_segment := Some ''New Visitor''\<rparr>)
     = (JStr ''popularity_based'',
        \<lparr>memory = [''strategy_preference_C1'' \<mapsto> JStr ''popularity_based''],
         agent_memory = [\<lparr>agent_type = ''recommendation'',
                           memory_key = ''strategy_preference_C1'',
                           memory_value = ''popularity_based''\<rparr>],
         recommendations = []\<rparr>)"
    by (simp add: select_unfold Let_def recall_memory_def get_agent_memory_def
        init_state_def blank_customer_def strategy_key_def get_or_def agent_name_def
        spec_default_strategy_def store_memory_def store_agent_memory_def)
  from select_idempotent [of "\<lambda>_. None" init_state
      "blank_customer\<lparr>customer_id := Some ''C1'', customer_segment := Some ''New Visitor''\<rparr>"]
  have "select_recommendation_strategy (\<lambda>_. None)
      (snd (select_recommendation_strategy (\<lambda>_. None) init_state
         (blank_customer\<lparr>customer_id := Some ''C1'', customer_segment := Some ''New Visitor''\<rparr>)))
      (blank_customer\<lparr>customer_id := Some ''C1'', customer_segment := Some ''New Visitor''\<rparr>)
    = select_recommendation_strategy (\<lambda>_. None) init_state
        (blank_customer\<lparr>customer_id := Some ''C1'', customer_segment := Some ''New Visitor''\<rparr>)"
    by blast
  then show ?thesis by (simp add: e)
qed

text \<open>
  Claim C10. With the feedback value 0, both feedback entry points (the
  \<^verbatim>\<open>learn_from_feedback\<close> action of the recommendation agent and the coordinator's
  \<^verbatim>\<open>handle_feedback\<close>) answer with the error "Missing required feedback data",
  whatever the customer and product ids are, and leave the strategy preference and the
  recommendation records as they were.
\<close>

theorem zero_feedback_rejected:
  "process_learn_from_feedback loads st (d\<lparr>fb_feedback := Some 0\<rparr>)
     = (Error ''Missing required feedback data'', st)
   \<and> handle_feedback loads st (d\<lparr>fb_feedback := Some 0\<rparr>)
     = (Error ''Missing required feedback data'', st)"
  by (simp add: process_learn_from_feedback_def handle_feedback_def all_present_def)

text \<open>
  Claim C5. The strategy selector evaluates its rules in order, the first match winning.
  A preference found in the agent's cache, or else in the durable store (first row of the
  customer's key, a text that is not JSON), is returned unchanged and nothing is written.
  With no stored preference the result is popularity\_based for the segment "New Visitor",
  else collaborative\_filtering for "Frequent Buyer", else content\_based when the browsing
  history is longer than the purchase history, else hybrid; the chosen strategy is then
  written to the cache and appended to the durable store before returning.
\<close>

theorem select_strategy_spec:
  fixes c :: customer
  shows
  "(memory st (strategy_key (get_or (customer_id c) ''None'')) = Some v \<and> truthy v
      \<longrightarrow> select_recommendation_strategy loads st c = (v, st))
   \<and> (memory st (strategy_key (get_or (customer_id c) ''None'')) = None
       \<and> get_agent_memory (agent_memory st) agent_name
            (strategy_key (get_or (customer_id c) ''None'')) = row # rest
       \<and> loads (memory_value row) = None \<and> memory_value row \<noteq> []
      \<longrightarrow> fst (select_recommendation_strategy loads st c) = JStr (memory_value row)
          \<and> agent_memory (snd (select_recommendation_strategy loads st c)) = agent_memory st)
   \<and> (memory st (strategy_key (get_or (customer_id c) ''None'')) = None
       \<and> get_agent_memory (agent_memory st) agent_name
            (strategy_key (get_or (customer_id c) ''None'')) = []
      \<longrightarrow> fst (select_recommendation_strategy loads st c) = JStr (spec_default_strategy c)
          \<and> memory (snd (select_recommendation_strategy loads st c))
               (strategy_key (get_or (customer_id c) ''None''))
              = Some (JStr (spec_default_strategy c))
          \<and> agent_memory (snd (select_recommendation_strategy loads st c))
              = agent_memory st
                @ [\<lparr>agent_type = agent_name,
                    memory_key = strategy_key (get_or (customer_id c) ''None''),
                    memory_value = spec_default_strategy c\<rparr>])"
proof (intro conjI impI)
  let ?key = "strategy_key (get_or (customer_id c) ''None'')"
  {
    assume "memory st ?key = Some v \<and> truthy v"
    then show "select_recommendation_strategy loads st c = (v, st)"
      by (simp add: select_unfold Let_def recall_memory_cached)
  }
  {
    assume h: "memory st ?key = None
       \<and> get_agent_memory (agent_memory st) agent_name ?key = row # rest
       \<and> loads (memory_value row) = None \<and> memory_value row \<noteq> []"
    then have r: "recall_memory loads st ?key
        = (JStr (memory_value row), st\<lparr>memory := (memory st)(?key \<mapsto> JStr (memory_value row))\<rparr>)"
      by (simp add: recall_memory_def Let_def)
    from h have t: "truthy (JStr (memory_value row))" by simp
    from r t show "fst (select_recommendation_strategy loads st c) = JStr (memory_value row)"
      by (simp add: select_unfold Let_def)
    from r t show "agent_memory (snd (select_recommendation_strategy loads st c)) = agent_memory st"
      by (simp add: select_unfold Let_def)
  }
  {
    assume h: "memory st ?key = None
       \<and> get_agent_memory (agent_memory st) agent_name ?key = []"
    then have r: "recall_memory loads st ?key = (JNull, st)"
      by (simp add: recall_memory_def)
    then have s: "select_recommendation_strategy loads st c
        = (JStr (spec_default_strategy c), store_memory st ?key (spec_default_strategy c))"
      by (simp add: select_unfold Let_def)
    show "fst (select_recommendation_strategy loads st c) = JStr (spec_default_strategy c)"
      by (simp add: s)
    show "memory (snd (select_recommendation_strategy loads st c)) ?key
              = Some (JStr (spec_default_strategy c))"
      by (simp add: s store_memory_fields)
    show "agent_memory (snd (select_recommendation_strategy loads st c))
              = agent_memory st
                @ [\<lparr>agent_type = agent_name, memory_key = ?key,
                    memory_value = spec_default_strategy c\<rparr>]"
      by (simp add: s store_memory_fields)
  }
qed

theorem select_strategy_spec_witness:
  "memory (init_state\<lparr>memory := [''strategy_preference_C1'' \<mapsto> JStr ''hybrid'']\<rparr>)
       (strategy_key (get_or (customer_id (blank_customer\<lparr>customer_id := Some ''C1'',
            customer_segment := Some ''New Visitor''\<rparr>)) ''None'')) = Some (JStr ''hybrid'')
   \<and> truthy (JStr ''hybrid'')
   \<and> select_recommendation_strategy (\<lambda>_. None)
        (init_state\<lparr>memory := [''strategy_preference_C1'' \<mapsto> JStr ''hybrid'']\<rparr>)
        (blank_customer\<lparr>customer_id := Some ''C1'', customer_segment := Some ''New Visitor''\<rparr>)
       = (JStr ''hybrid'', init_state\<lparr>memory := [''strategy_preference_C1'' \<mapsto> JStr ''hybrid'']\<rparr>)
   \<and> get_agent_memory
        (agent_memory (init_state\<lparr>agent_memory :=
           [\<lparr>agent_type = ''recommendation'', memory_key = ''strategy_preference_C1'',
             memory_value = ''content_based''\<rparr>]\<rparr>)) agent_name
        (strategy_key (get_or (customer_id (blank_customer\<lparr>customer_id := Some ''C1'',
            customer_segment := Some ''New Visitor''\<rparr>)) ''None''))
       = [\<lparr>agent_type = ''recommendation'', memory_key = ''strategy_preference_C1'',
           memory_value = ''content_based''\<rparr>]
   \<and> fst (select_recommendation_strategy (\<lambda>_. None)
        (init_state\<lparr>agent_memory :=
           [\<lparr>agent_type = ''recommendation'', memory_key = ''strategy_preference_C1'',
             memory_value = ''content_based''\<rparr>]\<rparr>)
        (blank_customer\<lparr>customer_id := Some ''C1'', customer_segment := Some ''New Visitor''\<rparr>))
       = JStr ''content_based''
   \<and> get_agent_memory (agent_memory init_state) agent_name
        (strategy_key (get_or (customer_id (blank_customer\<lparr>customer_id := Some ''C1'',
            customer_segment := Some ''New Visitor''\<rparr>)) ''None'')) = []
   \<and> fst (select_recommendation_strategy (\<lambda>_. None) init_state
        (blank_customer\<lparr>customer_id := Some ''C1'', customer_segment := Some ''New Visitor''\<rparr>))
       = JStr ''popularity_based''
   \<and> agent_memory (snd (select_recommendation_strategy (\<lambda>_. None) init_state
        (blank_customer\<lparr>customer_id := Some ''C1'', customer_segment := Some ''New Visitor''\<rparr>)))
       = [\<lparr>agent_type = ''recommendation'', memory_key = ''strategy_preference_C1'',
           memory_value = ''popularity_based''\<rparr>]"
  using
    select_strategy_spec
      [where st = "init_state\<lparr>memory := [''strategy_preference_C1'' \<mapsto> JStr ''hybrid'']\<rparr>"
         and c = "blank_customer\<lparr>customer_id := Some ''C1'', customer_segment := Some ''New Visitor''\<rparr>"
         and v = "JStr ''hybrid''" and loads = "\<lambda>_. None"]
    select_strategy_spec
      [where st = "init_state\<lparr>agent_memory :=
           [\<lparr>agent_type = ''recommendation'', memory_key = ''strategy_preference_C1'',
             memory_value = ''content_based''\<rparr>]\<rparr>"
         and c = "blank_customer\<lparr>customer_id := Some ''C1'', customer_segment := Some ''New Visitor''\<rparr>"
         and row = "\<lparr>agent_type = ''recommendation'', memory_key = ''strategy_preference_C1'',
             memory_value = ''content_based''\<rparr>"
         and rest = "[]" and loads = "\<lambda>_. None"]
    select_strategy_spec
      [where st = init_state
         and c = "blank_customer\<lparr>customer_id := Some ''C1'', customer_segment := Some ''New Visitor''\<rparr>"
         and loads = "\<lambda>_. None"]
  by (simp add: init_state_def blank_customer_def strategy_key_def get_or_def
      get_agent_memory_def agent_name_def spec_default_strategy_def)

lemma next_strategy_refines:
  "s \<in> set strategies \<Longrightarrow>
     strategies ! (Suc (index_of strategies s) mod length strategies) = spec_next_strategy s"
  by (auto simp: strategies_def spec_next_strategy_def)

lemma learn_unfold:
  "learn_from_feedback loads st cid pid feedback =
     (let key = strategy_key cid; r = recall_memory loads st key
      in if feedback < 0 \<and> truthy (fst r)
         then (let next_strategy =
                     strategies ! (((case fst r of
                        JStr s \<Rightarrow> if s \<in> set strategies then index_of strategies s else 0
                      | _ \<Rightarrow> 0) + 1) mod length strategies)
               in (Adjusted_strategy (fst r) next_strategy,
                   store_memory (snd r) key next_strategy))
         else (Maintained_strategy (fst r), snd r))"
  by (simp add: learn_from_feedback_def Let_def split: prod.splits)

text \<open>
  Within the life of one agent object the rotation works on the cache: with a stored
  preference among the four strategies, a negative feedback makes the preference read
  afterwards the next one of the cycle, and any other feedback leaves it as it was.
\<close>

lemma learn_from_feedback_live:
  "(fst (recall_memory loads st (strategy_key cid)) = JStr s \<and> s \<in> set strategies
      \<and> feedback < 0
      \<longrightarrow> fst (learn_from_feedback loads st cid pid feedback)
            = Adjusted_strategy (JStr s) (spec_next_strategy s)
          \<and> fst (recall_memory loads (snd (learn_from_feedback loads st cid pid feedback))
                   (strategy_key cid))
            = JStr (spec_next_strategy s))
   \<and> (feedback \<ge> 0 \<or> \<not> truthy (fst (recall_memory loads st (strategy_key cid)))
      \<longrightarrow> fst (learn_from_feedback loads st cid pid feedback)
            = Maintained_strategy (fst (recall_memory loads st (strategy_key cid)))
          \<and> fst (recall_memory loads (snd (learn_from_feedback loads st cid pid feedback))
                   (strategy_key cid))
            = fst (recall_memory loads st (strategy_key cid))
          \<and> agent_memory (snd (learn_from_feedback loads st cid pid feedback))
            = agent_memory st)
   \<and> spec_next_strategy ''collaborative_filtering'' = ''content_based''
   \<and> spec_next_strategy ''content_based'' = ''popularity_based''
   \<and> spec_next_strategy ''popularity_based'' = ''hybrid''
   \<and> spec_next_strategy ''hybrid'' = ''collaborative_filtering''"
proof (intro conjI impI)
  let ?key = "strategy_key cid"
  obtain v st1 where r: "recall_memory loads st ?key = (v, st1)"
    by (cases "recall_memory loads st ?key")
  {
    assume h: "fst (recall_memory loads st ?key) = JStr s \<and> s \<in> set strategies \<and> feedback < 0"
    with r have v: "v = JStr s" by simp
    from h have ne: "s \<noteq> []" by (auto simp: strategies_def)
    from h r v ne have l: "learn_from_feedback loads st cid pid feedback
        = (Adjusted_strategy (JStr s) (spec_next_strategy s),
           store_memory st1 ?key (spec_next_strategy s))"
      by (simp add: learn_unfold Let_def next_strategy_refines)
    show "fst (learn_from_feedback loads st cid pid feedback)
            = Adjusted_strategy (JStr s) (spec_next_strategy s)"
      by (simp add: l)
    show "fst (recall_memory loads (snd (learn_from_feedback loads st cid pid feedback)) ?key)
            = JStr (spec_next_strategy s)"
      by (simp add: l recall_memory_store)
  }
  {
    assume h: "feedback \<ge> 0 \<or> \<not> truthy (fst (recall_memory loads st ?key))"
    with r have l: "learn_from_feedback loads st cid pid feedback = (Maintained_strategy v, st1)"
      by (auto simp: learn_unfold Let_def)
    show "fst (learn_from_feedback loads st cid pid feedback)
            = Maintained_strategy (fst (recall_memory loads st ?key))"
      by (simp add: l r)
    show "fst (recall_memory loads (snd (learn_from_feedback loads st cid pid feedback)) ?key)
            = fst (recall_memory loads st ?key)"
      using recall_memory_idem [OF r] by (simp add: l r)
    show "agent_memory (snd (learn_from_feedback loads st cid pid feedback)) = agent_memory st"
      using recall_memory_table [OF r] by (simp add: l)
  }
qed (simp_all add: spec_next_strategy_def)

text \<open>
  Claim C4. Every negative feedback is to replace the customer's stored preference by the
  next strategy of the cycle collaborative\_filtering, content\_based, popularity\_based,
  hybrid, collaborative\_filtering, one position per negative feedback. The durable store
  does not follow: \<^verbatim>\<open>store_agent_memory\<close> inserts a row and
  \<^verbatim>\<open>recall_memory\<close> reads the first row of the key. With the preference
  popularity\_based in the database, a first negative feedback rotates it to hybrid; after
  a restart a second negative feedback reads popularity\_based again and rotates it to
  hybrid again, where two positions lead to collaborative\_filtering; and an agent with an
  empty cache still reads popularity\_based.
\<close>

theorem learn_from_feedback_restart:
  "fst (learn_from_feedback (\<lambda>_. None)
          (init_state\<lparr>agent_memory :=
             [\<lparr>agent_type = ''recommendation'', memory_key = ''strategy_preference_C1'',
               memory_value = ''popularity_based''\<rparr>]\<rparr>)
          ''C1'' ''P1'' (- 1))
     = Adjusted_strategy (JStr ''popularity_based'') ''hybrid''
   \<and> fst (learn_from_feedback (\<lambda>_. None)
          (restart (snd (learn_from_feedback (\<lambda>_. None)
             (init_state\<lparr>agent_memory :=
                [\<lparr>agent_type = ''recommendation'', memory_key = ''strategy_preference_C1'',
                  memory_value = ''popularity_based''\<rparr>]\<rparr>)
             ''C1'' ''P1'' (- 1))))
          ''C1'' ''P1'' (- 1))
     = Adjusted_strategy (JStr ''popularity_based'') ''hybrid''
   \<and> map memory_value (agent_memory (snd (learn_from_feedback (\<lambda>_. None)
          (restart (snd (learn_from_feedback (\<lambda>_. None)
             (init_state\<lparr>agent_memory :=
                [\<lparr>agent_type = ''recommendation'', memory_key = ''strategy_preference_C1'',
                  memory_value = ''popularity_based''\<rparr>]\<rparr>)
             ''C1'' ''P1'' (- 1))))
          ''C1'' ''P1'' (- 1))))
     = [''popularity_based'', ''hybrid'', ''hybrid'']
   \<and> fst (recall_memory (\<lambda>_. None)
          (restart (snd (learn_from_feedback (\<lambda>_. None)
             (restart (snd (learn_from_feedback (\<lambda>_. None)
                (init_state\<lparr>agent_memory :=
                   [\<lparr>agent_type = ''recommendation'', memory_key = ''strategy_preference_C1'',
                     memory_value = ''popularity_based''\<rparr>]\<rparr>)
                ''C1'' ''P1'' (- 1))))
             ''C1'' ''P1'' (- 1))))
          (strategy_key ''C1''))
     = JStr ''popularity_based''
   \<and> spec_next_strategy (spec_next_strategy ''popularity_based'') = ''collaborative_filtering''"
  by (simp add: learn_unfold Let_def recall_memory_def get_agent_memory_def restart_def
      init_state_def strategy_key_def agent_name_def strategies_def
      store_memory_def store_agent_memory_def spec_next_strategy_def)

text \<open>
  The durable store is append-only and a cold cache reads the first row of a key: a
  preference written over an earlier one is what the agent reads as long as its cache
  lives, while an agent starting with an empty cache reads the earliest row again.
\<close>

lemma cold_cache_reads_first_row:
  assumes "get_agent_memory (agent_memory st) agent_name key = row # rest"
  shows "fst (recall_memory loads (restart (store_memory st key v)) key)
       = fst (recall_memory loads (restart st) key)"
  using assms
  by (simp add: recall_memory_def store_memory_def store_agent_memory_def
      get_agent_memory_def restart_def Let_def split: if_splits)

end
